theory Spec2Isabelle
  imports Complex_Main
begin

section \<open>The LI evaluator library (li.py): data model\<close>

text \<open>
  li.py mixes idioms of Python 2 (\<^verbatim>\<open>dict.iteritems\<close>, \<^verbatim>\<open>str(map(...))\<close>) and of Python 3
  (\<^verbatim>\<open>print()\<close> for an empty line, \<^verbatim>\<open>print\<close> with several arguments, \<^verbatim>\<open>functools.reduce\<close>, the
  table \<^verbatim>\<open>LITERALS\<close> keyed by \<^verbatim>\<open>str\<close>). The two versions differ on \<^verbatim>\<open>map\<close>: Python 2 builds a
  list, Python 3 returns a one-shot iterator that calls the function only when it is
  read. \<^verbatim>\<open>_Map\<close> returns what \<^verbatim>\<open>map\<close> returns, so it is modelled as it runs under Python 3:
  it returns the iterator (\<open>map_object\<close>), and reading the iterator is a function of its
  own (\<open>map_read\<close>). Where li.py builds another object from the result of \<^verbatim>\<open>map\<close> on the
  spot (\<^verbatim>\<open>sum\<close> in \<^verbatim>\<open>_Len\<close>, \<^verbatim>\<open>zip\<close> in \<^verbatim>\<open>Dict.json\<close>) or stores it as the list of elements
  (\<^verbatim>\<open>List.json\<close>), the model gives the items that one reading yields, in order. The loop
  of \<^verbatim>\<open>Dict.__init__\<close> is the loop over the items of the payload.

  Python objects are modelled as follows.
  \<^item> Native data (the raw program representation and the payloads of runtime values) is the
    datatype \<open>pyobj\<close>: exactly the seven types that are keys of the table \<^verbatim>\<open>LITERALS\<close>
    (list, dict, str, int, bool, float, NoneType) and instances of the class \<^verbatim>\<open>Type\<close>.
    A native dict is an association list with distinct keys, in its iteration order.
    A float is a real number (the finite floats; no property below depends on rounding).
  \<^item> The class hierarchy under \<^verbatim>\<open>Type\<close> is the datatype \<open>Type\<close>: one constructor for each
    concrete class, holding the payload (\<^verbatim>\<open>val\<close>) and the attribute \<^verbatim>\<open>env\<close>. A \<open>Function\<close>
    holds its object identity (two Function objects are the same object exactly when
    they have the same identity), \<^verbatim>\<open>_params\<close>, \<^verbatim>\<open>_def\<close> and the address of \<^verbatim>\<open>_env\<close>; its
    attribute \<^verbatim>\<open>_run_env\<close> is never read and is left out, and its attribute \<^verbatim>\<open>val\<close> is the
    Function itself. Lists and the instances of \<^verbatim>\<open>Type\<close> are held by value.
  \<^item> Environments are dict objects that are shared and mutated in place
    (\<^verbatim>\<open>_FunctionEnv.__setitem__\<close> writes into the dict a Function captured), so they live in
    a store: \<open>dicts s a\<close> is the content of the dict at address \<open>a\<close>, and \<open>fresh s\<close> is the
    next unused address. An \<open>env\<close> is either a plain dict or a \<^verbatim>\<open>_FunctionEnv\<close> made of the
    Function and the addresses of its two layers.
  \<^item> \<open>stdout s\<close> is the output stream: one entry for each call of \<^verbatim>\<open>print\<close>, holding the
    objects that were printed.
  \<^item> An exception is a value of \<open>error\<close>; a function that can raise returns \<open>error + 'a\<close>,
    together with the state reached when it has effects.
\<close>

type_synonym addr = nat

datatype error =
    KeyError string
  | IndexError
  | TypeError
  | AttributeError
  | FunctionError error string
  | UnboundVariableError string
  | JSOLSyntaxError string
  | ReservedWordError string

datatype num = NInt int | NBool bool | NFloat real

datatype pyobj =
    PList "pyobj list"
  | PDict "(string \<times> pyobj) list"
  | PStr string
  | PInt int
  | PBool bool
  | PFloat real
  | PNone
  | PType Type
and Type =
    List "Type list" env
  | Dict "(string \<times> Type) list" env
  | String string env
  | Number num env
  | Null env
  | Function nat "string list" "pyobj list" addr
and env =
    EnvDict addr
  | FunctionEnv Type addr addr

record state =
  dicts :: "addr \<Rightarrow> (string \<rightharpoonup> pyobj)"
  fresh :: addr
  stdout :: "pyobj list list"

text \<open>The two entry points of the evaluator core, \<^verbatim>\<open>_Eval(exp, env)\<close> and
  \<^verbatim>\<open>_ExecList(statements, env)\<close>, are called by li.py but their bodies are not part of it.
  Every function that calls them takes them as a parameter of these types.\<close>

type_synonym evaluator = "pyobj \<Rightarrow> env \<Rightarrow> state \<Rightarrow> (error + Type) \<times> state"

type_synonym executor = "pyobj list \<Rightarrow> env \<Rightarrow> state \<Rightarrow> (error + Type) \<times> state"

subsection \<open>Dict objects\<close>

text \<open>A dict display or a call of \<^verbatim>\<open>dict(...)\<close> makes a new dict object.\<close>

definition new_dict :: "(string \<rightharpoonup> pyobj) \<Rightarrow> state \<Rightarrow> addr \<times> state" where
  "new_dict d s = (fresh s, s\<lparr>dicts := (dicts s)(fresh s := d), fresh := Suc (fresh s)\<rparr>)"

text \<open>\<^verbatim>\<open>d.get(k, default)\<close> of a builtin dict; an omitted default is \<^verbatim>\<open>None\<close>.\<close>

definition dict_get :: "(string \<rightharpoonup> pyobj) \<Rightarrow> string \<Rightarrow> pyobj option \<Rightarrow> pyobj" where
  "dict_get d k dflt =
     (case d k of
        Some v \<Rightarrow> v
      | None \<Rightarrow> (case dflt of Some x \<Rightarrow> x | None \<Rightarrow> PNone))"

text \<open>\<^verbatim>\<open>d[k]\<close> of a builtin dict.\<close>

definition dict_getitem :: "(string \<rightharpoonup> pyobj) \<Rightarrow> string \<Rightarrow> error + pyobj" where
  "dict_getitem d k = (case d k of Some v \<Rightarrow> Inr v | None \<Rightarrow> Inl (KeyError k))"

text \<open>\<^verbatim>\<open>dict(zip(ps, args))\<close>: \<^verbatim>\<open>zip\<close> stops at the shorter list, and \<^verbatim>\<open>dict\<close> keeps the
  last pair of a repeated key.\<close>

definition dict_zip :: "string list \<Rightarrow> pyobj list \<Rightarrow> (string \<rightharpoonup> pyobj)" where
  "dict_zip ps args = map_of (rev (zip ps args))"

subsection \<open>Function._FunctionEnv\<close>

text \<open>\<^verbatim>\<open>copy\<close>, \<^verbatim>\<open>get\<close>, \<^verbatim>\<open>__getitem__\<close> and \<^verbatim>\<open>__setitem__\<close>. The equation for
  \<open>FunctionEnv\<close> is the method of the class; the equation for \<open>EnvDict\<close> is the method
  of the builtin dict, since both kinds of environment reach \<^verbatim>\<open>env.copy()\<close>.\<close>

fun copy :: "env \<Rightarrow> state \<Rightarrow> addr \<times> state" where
  "copy (FunctionEnv og e r) s = new_dict (Map.empty ++ dicts s e ++ dicts s r) s"
| "copy (EnvDict a) s = new_dict (dicts s a) s"

fun get :: "env \<Rightarrow> string \<Rightarrow> pyobj option \<Rightarrow> state \<Rightarrow> pyobj \<times> state" where
  "get (FunctionEnv og e r) k dflt s =
     (let (c, s') = copy (FunctionEnv og e r) s in (dict_get (dicts s' c) k dflt, s'))"
| "get (EnvDict a) k dflt s = (dict_get (dicts s a) k dflt, s)"

fun getitem :: "env \<Rightarrow> string \<Rightarrow> state \<Rightarrow> (error + pyobj) \<times> state" where
  "getitem (FunctionEnv og e r) k s =
     (let (c, s') = copy (FunctionEnv og e r) s in (dict_getitem (dicts s' c) k, s'))"
| "getitem (EnvDict a) k s = (dict_getitem (dicts s a) k, s)"

fun setitem :: "env \<Rightarrow> string \<Rightarrow> pyobj \<Rightarrow> state \<Rightarrow> state" where
  "setitem (FunctionEnv og e r) k v s =
     (if k \<in> dom (dicts s r) \<or> k \<notin> dom (dicts s e)
      then s\<lparr>dicts := (dicts s)(r := (dicts s r)(k \<mapsto> v))\<rparr>
      else s\<lparr>dicts := (dicts s)(e := (dicts s e)(k \<mapsto> v))\<rparr>)"
| "setitem (EnvDict a) k v s = s\<lparr>dicts := (dicts s)(a := (dicts s a)(k \<mapsto> v))\<rparr>"

subsection \<open>Function\<close>

text \<open>\<^verbatim>\<open>Function.Eval(args)\<close>: a new dict binds the parameters, the \<^verbatim>\<open>_FunctionEnv\<close> pairs it
  with the dict the Function captured, and \<^verbatim>\<open>_ExecList\<close> runs the body. Only a Function has
  the method.\<close>

fun params :: "Type \<Rightarrow> string list" where
  "params (Function i ps d e) = ps"
| "params _ = []"

fun Function_Eval :: "executor \<Rightarrow> Type \<Rightarrow> pyobj list \<Rightarrow> state \<Rightarrow> (error + Type) \<times> state" where
  "Function_Eval ExecList (Function i ps d e) args s =
     (let (r, s') = new_dict (dict_zip ps args) s
      in ExecList d (FunctionEnv (Function i ps d e) e r) s')"
| "Function_Eval ExecList _ args s = (Inl AttributeError, s)"

subsection \<open>The attribute val and the method json\<close>

fun num_obj :: "num \<Rightarrow> pyobj" where
  "num_obj (NInt i) = PInt i"
| "num_obj (NBool b) = PBool b"
| "num_obj (NFloat x) = PFloat x"

text \<open>\<^verbatim>\<open>x.val\<close>: the payload of a Literal; a Function is its own payload
  (\<^verbatim>\<open>self.val = self\<close>).\<close>

fun val :: "Type \<Rightarrow> pyobj" where
  "val (List xs e) = PList (map PType xs)"
| "val (Dict d e) = PDict (map (\<lambda>(k, v). (k, PType v)) d)"
| "val (String t e) = PStr t"
| "val (Number n e) = num_obj n"
| "val (Null e) = PNone"
| "val (Function i ps d e) = PType (Function i ps d e)"

text \<open>\<^verbatim>\<open>x.json()\<close>, one equation for each class that defines or inherits it:
  \<^verbatim>\<open>List.json\<close>, \<^verbatim>\<open>Dict.json\<close>, \<^verbatim>\<open>Literal.json\<close> (inherited by String), \<^verbatim>\<open>Number.json\<close>,
  \<^verbatim>\<open>Null.json\<close> and \<^verbatim>\<open>Function.json\<close>.\<close>

fun json :: "Type \<Rightarrow> pyobj" where
  "json (List xs e) = PDict [(''lit'', PList (map json xs))]"
| "json (Dict d e) = PDict [(''lit'', PDict (zip (map fst d) (map json (map snd d))))]"
| "json (String t e) = PDict [(''lit'', PStr t)]"
| "json (Number n e) = num_obj n"
| "json (Null e) = PNone"
| "json (Function i ps d e) = PDict [(''params'', PList (map PStr ps)), (''def'', PList d)]"

subsection \<open>Construction: List, Dict and Lit\<close>

text \<open>\<^verbatim>\<open>List.__init__\<close>: the loop replaces every element of the copied list by its value,
  in order; an exception of \<^verbatim>\<open>_Eval\<close> ends the construction.\<close>

fun List_elems :: "evaluator \<Rightarrow> pyobj list \<Rightarrow> env \<Rightarrow> state \<Rightarrow> (error + Type list) \<times> state" where
  "List_elems Eval [] env s = (Inr [], s)"
| "List_elems Eval (v # vs) env s =
     (case Eval v env s of
        (Inl err, s') \<Rightarrow> (Inl err, s')
      | (Inr x, s') \<Rightarrow>
          (case List_elems Eval vs env s' of
             (Inl err, s'') \<Rightarrow> (Inl err, s'')
           | (Inr xs, s'') \<Rightarrow> (Inr (x # xs), s'')))"

definition List_init :: "evaluator \<Rightarrow> pyobj list \<Rightarrow> env \<Rightarrow> state \<Rightarrow> (error + Type) \<times> state" where
  "List_init Eval vs env s =
     (case List_elems Eval vs env s of
        (Inl err, s') \<Rightarrow> (Inl err, s')
      | (Inr xs, s') \<Rightarrow> (Inr (List xs env), s'))"

text \<open>\<^verbatim>\<open>Dict.__init__\<close>. The payload is a dict object of its own (address \<open>pa\<close>), since the
  Functions among its values get it as their \<^verbatim>\<open>_env\<close>. The first loop stores each value
  into the payload as it is evaluated against the private copy of the environment; the
  second loop rebinds the Functions. The constructed \<open>Dict\<close> holds the final payload by
  value, and the store holds the same payload at \<open>pa\<close>.\<close>

fun Dict_values ::
  "evaluator \<Rightarrow> addr \<Rightarrow> (string \<times> pyobj) list \<Rightarrow> env \<Rightarrow> state \<Rightarrow> (error + (string \<times> Type) list) \<times> state"
where
  "Dict_values Eval pa [] denv s = (Inr [], s)"
| "Dict_values Eval pa ((k, v) # kvs) denv s =
     (case Eval v denv s of
        (Inl err, s') \<Rightarrow> (Inl err, s')
      | (Inr x, s') \<Rightarrow>
          (case Dict_values Eval pa kvs denv (setitem (EnvDict pa) k (PType x) s') of
             (Inl err, s'') \<Rightarrow> (Inl err, s'')
           | (Inr xs, s'') \<Rightarrow> (Inr ((k, x) # xs), s'')))"

fun rebind :: "addr \<Rightarrow> Type \<Rightarrow> Type" where
  "rebind pa (Function i ps d e) = Function i ps d pa"
| "rebind pa v = v"

definition Dict_init ::
  "evaluator \<Rightarrow> (string \<times> pyobj) list \<Rightarrow> env \<Rightarrow> state \<Rightarrow> (error + Type) \<times> state"
where
  "Dict_init Eval kvs env s =
     (let (pa, s0) = new_dict (map_of kvs) s;
          (de, s1) = copy env s0
      in case Dict_values Eval pa kvs (EnvDict de) s1 of
           (Inl err, s2) \<Rightarrow> (Inl err, s2)
         | (Inr xs, s2) \<Rightarrow>
             (let ys = map (\<lambda>(k, x). (k, rebind pa x)) xs
              in (Inr (Dict ys env),
                  s2\<lparr>dicts := (dicts s2)(pa := map_of (map (\<lambda>(k, y). (k, PType y)) ys))\<rparr>)))"

text \<open>\<^verbatim>\<open>Lit(val, env=None)\<close>. The table \<^verbatim>\<open>LITERALS\<close> is the case distinction on the type of
  the raw object.\<close>

definition Lit :: "evaluator \<Rightarrow> pyobj \<Rightarrow> env option \<Rightarrow> state \<Rightarrow> (error + Type) \<times> state" where
  "Lit Eval v env_opt s =
     (let (env, s1) =
            (case env_opt of
               None \<Rightarrow> (let (a, s') = new_dict Map.empty s in (EnvDict a, s'))
             | Some e \<Rightarrow> (e, s))
      in case v of
           PType x \<Rightarrow> (Inr x, s1)
         | PList xs \<Rightarrow> List_init Eval xs env s1
         | PDict kvs \<Rightarrow> Dict_init Eval kvs env s1
         | PStr t \<Rightarrow> (Inr (String t env), s1)
         | PInt i \<Rightarrow> (Inr (Number (NInt i) env), s1)
         | PBool b \<Rightarrow> (Inr (Number (NBool b) env), s1)
         | PFloat x \<Rightarrow> (Inr (Number (NFloat x) env), s1)
         | PNone \<Rightarrow> (Inr (Null env), s1))"

section \<open>Built-in functions\<close>

subsection \<open>Python's \<^verbatim>\<open>==\<close> on payloads, \<^verbatim>\<open>Literal.__eq__\<close>, \<^verbatim>\<open>_Cond\<close> and \<^verbatim>\<open>_Eq\<close>\<close>

text \<open>Numbers of the three numeric types are equal when their values are
  (\<^verbatim>\<open>True == 1\<close>, \<^verbatim>\<open>1 == 1.0\<close>).\<close>

fun num_val :: "num \<Rightarrow> real" where
  "num_val (NInt i) = real_of_int i"
| "num_val (NBool b) = (if b then 1 else 0)"
| "num_val (NFloat x) = x"

text \<open>\<open>val_eq a b\<close> is \<^verbatim>\<open>a.val == b.val\<close> for two runtime values. For two Literals this
  is \<^verbatim>\<open>Literal.__eq__\<close>, and Python's equality of lists and of dicts calls it again on
  the elements: lists are equal when they have the same length and equal elements, dicts
  when they have the same keys with equal values. \<^verbatim>\<open>Function\<close> defines no \<^verbatim>\<open>__eq__\<close>, so a
  Function is equal to itself only, and payloads of different types are never equal.\<close>

fun val_eq :: "Type \<Rightarrow> Type \<Rightarrow> bool" where
  "val_eq (List xs _) (List ys _) = list_all2 val_eq xs ys"
| "val_eq (Dict d _) (Dict d' _) =
     (length d = length d' \<and>
      list_all (\<lambda>(k, x). case map_of d' k of None \<Rightarrow> False | Some y \<Rightarrow> val_eq x y) d)"
| "val_eq (String t _) (String u _) = (t = u)"
| "val_eq (Number m _) (Number n _) = (num_val m = num_val n)"
| "val_eq (Null _) (Null _) = True"
| "val_eq (Function i _ _ _) (Function j _ _ _) = (i = j)"
| "val_eq _ _ = False"

text \<open>\<^verbatim>\<open>all(...)\<close> over a generator: it stops at the first false item, and an exception
  raised by an item that is reached propagates.\<close>

fun py_all :: "(error + bool) list \<Rightarrow> error + bool" where
  "py_all [] = Inr True"
| "py_all (Inl err # rs) = Inl err"
| "py_all (Inr b # rs) = (if b then py_all rs else Inr False)"

text \<open>\<^verbatim>\<open>x == y\<close> on arbitrary objects. Between two instances of \<^verbatim>\<open>Type\<close> it is \<open>val_eq\<close>
  (\<^verbatim>\<open>Literal.__eq__\<close>, also reflected when only the right operand is a Literal). Between a
  Literal and a native object \<^verbatim>\<open>Literal.__eq__\<close> reads the attribute \<^verbatim>\<open>val\<close> of the native
  object and raises. Native lists and dicts compare their items in order and stop at the
  first difference.\<close>

fun is_Function :: "Type \<Rightarrow> bool" where
  "is_Function (Function i ps d e) = True"
| "is_Function _ = False"

function (sequential) py_eq :: "pyobj \<Rightarrow> pyobj \<Rightarrow> error + bool" where
  "py_eq (PType a) (PType b) = Inr (val_eq a b)"
| "py_eq (PType a) y = (if is_Function a then Inr False else Inl AttributeError)"
| "py_eq x (PType b) = (if is_Function b then Inr False else Inl AttributeError)"
| "py_eq (PList xs) (PList ys) =
     (if length xs \<noteq> length ys then Inr False
      else py_all (map (\<lambda>(x, y). py_eq x y) (zip xs ys)))"
| "py_eq (PDict d) (PDict d') =
     (if length d \<noteq> length d' then Inr False
      else py_all (map (\<lambda>(k, x). case map_of d' k of None \<Rightarrow> Inr False | Some y \<Rightarrow> py_eq x y) d))"
| "py_eq (PStr t) (PStr u) = Inr (t = u)"
| "py_eq (PInt i) y =
     (case y of PInt j \<Rightarrow> Inr (i = j) | PBool c \<Rightarrow> Inr (i = (if c then 1 else 0))
      | PFloat x \<Rightarrow> Inr (real_of_int i = x) | _ \<Rightarrow> Inr False)"
| "py_eq (PBool b) y =
     (case y of PInt j \<Rightarrow> Inr ((if b then 1 else 0) = j) | PBool c \<Rightarrow> Inr (b = c)
      | PFloat x \<Rightarrow> Inr ((if b then 1 else 0) = x) | _ \<Rightarrow> Inr False)"
| "py_eq (PFloat w) y =
     (case y of PInt j \<Rightarrow> Inr (w = real_of_int j) | PBool c \<Rightarrow> Inr (w = (if c then 1 else 0))
      | PFloat x \<Rightarrow> Inr (w = x) | _ \<Rightarrow> Inr False)"
| "py_eq PNone PNone = Inr True"
| "py_eq _ _ = Inr False"
  by pat_completeness auto

termination py_eq
proof (relation "measure (\<lambda>(x, y). size x)")
  show "wf (measure (\<lambda>(x, y). size x))"
    by simp
next
  fix xs ys :: "pyobj list" and z x y
  assume "z \<in> set (zip xs ys)" and "(x, y) = z"
  then have "x \<in> set xs"
    by (auto dest: set_zip_leftD)
  then have "size x \<le> size_list size xs"
    by (rule size_list_estimation') simp
  then show "((x, y), PList xs, PList ys) \<in> measure (\<lambda>(x, y). size x)"
    by simp
next
  fix d d' :: "(string \<times> pyobj) list" and z k x y
  assume "z \<in> set d" and "(k, x) = z"
  then have "(k, x) \<in> set d"
    by simp
  then have "size_prod (\<lambda>c. 0) size (k, x) \<le> size_list (size_prod (\<lambda>c. 0) size) d"
    by (rule size_list_estimation') simp
  then show "((x, y), PDict d, PDict d') \<in> measure (\<lambda>(x, y). size x)"
    by simp
qed

text \<open>\<^verbatim>\<open>_Cond(func, val)\<close> and \<^verbatim>\<open>_Eq(args)\<close>. \<^verbatim>\<open>range(len(val) - 1)\<close> is empty for the empty
  list, as the truncating subtraction on \<open>nat\<close> makes it here.\<close>

definition Cond :: "(pyobj \<Rightarrow> pyobj \<Rightarrow> error + bool) \<Rightarrow> Type list \<Rightarrow> error + bool" where
  "Cond func vl = py_all (map (\<lambda>i. func (val (vl ! i)) (val (vl ! (i + 1)))) [0..<length vl - 1])"

definition Eq :: "Type list \<Rightarrow> error + bool" where
  "Eq args = Cond (\<lambda>x y. py_eq x y) args"

subsection \<open>\<^verbatim>\<open>_Len\<close>\<close>

text \<open>\<^verbatim>\<open>len(x)\<close>: lists, dicts and strings have a length; numbers, \<^verbatim>\<open>None\<close> and the
  instances of \<^verbatim>\<open>Type\<close> (which defines no \<^verbatim>\<open>__len__\<close>) raise TypeError.\<close>

fun py_len :: "pyobj \<Rightarrow> error + nat" where
  "py_len (PList xs) = Inr (length xs)"
| "py_len (PDict d) = Inr (length d)"
| "py_len (PStr t) = Inr (length t)"
| "py_len _ = Inl TypeError"

text \<open>The items that \<^verbatim>\<open>map\<close> yields when it is read to its end on the spot, in order, or
  the first exception.\<close>

fun py_map :: "(error + 'a) list \<Rightarrow> error + 'a list" where
  "py_map [] = Inr []"
| "py_map (Inl err # rs) = Inl err"
| "py_map (Inr x # rs) = (case py_map rs of Inl err \<Rightarrow> Inl err | Inr xs \<Rightarrow> Inr (x # xs))"

definition Len :: "Type list \<Rightarrow> error + int" where
  "Len args =
     (case py_map (map (\<lambda>x. py_len (val x)) args) of
        Inl err \<Rightarrow> Inl err
      | Inr ns \<Rightarrow> Inr (int (sum_list ns)))"

subsection \<open>\<^verbatim>\<open>_Cut\<close>\<close>

text \<open>A slice bound is an int, a bool or \<^verbatim>\<open>None\<close> (no bound); anything else raises
  TypeError. A negative bound counts from the end, and bounds are clipped to the length.
  Lists and strings can be sliced.\<close>

fun slice_bound :: "pyobj \<Rightarrow> error + int option" where
  "slice_bound (PInt i) = Inr (Some i)"
| "slice_bound (PBool b) = Inr (Some (if b then 1 else 0))"
| "slice_bound PNone = Inr None"
| "slice_bound _ = Inl TypeError"

definition clip :: "nat \<Rightarrow> int \<Rightarrow> nat" where
  "clip n i = (if i < 0 then nat (max 0 (int n + i)) else min n (nat i))"

text \<open>\<^verbatim>\<open>x[:i]\<close>\<close>

fun slice_to :: "pyobj \<Rightarrow> pyobj \<Rightarrow> error + pyobj" where
  "slice_to (PList xs) i =
     (case slice_bound i of
        Inl err \<Rightarrow> Inl err
      | Inr None \<Rightarrow> Inr (PList xs)
      | Inr (Some j) \<Rightarrow> Inr (PList (take (clip (length xs) j) xs)))"
| "slice_to (PStr t) i =
     (case slice_bound i of
        Inl err \<Rightarrow> Inl err
      | Inr None \<Rightarrow> Inr (PStr t)
      | Inr (Some j) \<Rightarrow> Inr (PStr (take (clip (length t) j) t)))"
| "slice_to _ i = Inl TypeError"

text \<open>\<^verbatim>\<open>x[i:]\<close>\<close>

fun slice_from :: "pyobj \<Rightarrow> pyobj \<Rightarrow> error + pyobj" where
  "slice_from (PList xs) i =
     (case slice_bound i of
        Inl err \<Rightarrow> Inl err
      | Inr None \<Rightarrow> Inr (PList xs)
      | Inr (Some j) \<Rightarrow> Inr (PList (drop (clip (length xs) j) xs)))"
| "slice_from (PStr t) i =
     (case slice_bound i of
        Inl err \<Rightarrow> Inl err
      | Inr None \<Rightarrow> Inr (PStr t)
      | Inr (Some j) \<Rightarrow> Inr (PStr (drop (clip (length t) j) t)))"
| "slice_from _ i = Inl TypeError"

text \<open>\<^verbatim>\<open>_Cut(args)\<close>: the list display evaluates its two items from left to right, each a
  slice handed to \<^verbatim>\<open>Lit\<close> with no environment. The result is the native two-element list.\<close>

fun Cut :: "evaluator \<Rightarrow> Type list \<Rightarrow> state \<Rightarrow> (error + pyobj) \<times> state" where
  "Cut Eval (a0 # a1 # rest) s =
     (case slice_to (val a0) (val a1) of
        Inl err \<Rightarrow> (Inl err, s)
      | Inr p \<Rightarrow>
          (case Lit Eval p None s of
             (Inl err, s1) \<Rightarrow> (Inl err, s1)
           | (Inr l1, s1) \<Rightarrow>
               (case slice_from (val a0) (val a1) of
                  Inl err \<Rightarrow> (Inl err, s1)
                | Inr q \<Rightarrow>
                    (case Lit Eval q None s1 of
                       (Inl err, s2) \<Rightarrow> (Inl err, s2)
                     | (Inr l2, s2) \<Rightarrow> (Inr (PList [PType l1, PType l2]), s2)))))"
| "Cut Eval args s = (Inl IndexError, s)"

subsection \<open>\<^verbatim>\<open>_Map\<close>\<close>

text \<open>Iteration: a list yields its items, a string its characters, a dict its keys;
  other payloads are not iterable.\<close>

fun py_iter :: "pyobj \<Rightarrow> error + pyobj list" where
  "py_iter (PList xs) = Inr xs"
| "py_iter (PStr t) = Inr (map (\<lambda>c. PStr [c]) t)"
| "py_iter (PDict d) = Inr (map (\<lambda>(k, x). PStr k) d)"
| "py_iter _ = Inl TypeError"

text \<open>The object that \<^verbatim>\<open>map(function, iterable)\<close> returns, as li.py runs under Python 3:
  an iterator that holds the function and the items it has not passed to it yet. The
  function here is the lambda of \<^verbatim>\<open>_Map\<close>, which is determined by the list \<^verbatim>\<open>args\<close> it closes
  over; so the object is that list together with the remaining items.\<close>

datatype map_object = MapObject "Type list" "pyobj list"

text \<open>\<^verbatim>\<open>_Map(args)\<close> returns the map object and calls nothing: it needs neither the state
  nor \<^verbatim>\<open>_ExecList\<close>. Making the object evaluates \<^verbatim>\<open>args[1].val\<close> and asks it for an iterator,
  which is where a short argument list or a payload that is not iterable raises.\<close>

fun Map :: "Type list \<Rightarrow> error + map_object" where
  "Map (a0 # a1 # rest) =
     (case py_iter (val a1) of
        Inl err \<Rightarrow> Inl err
      | Inr xs \<Rightarrow> Inr (MapObject (a0 # a1 # rest) xs))"
| "Map args = Inl IndexError"

text \<open>The lambda \<^verbatim>\<open>lambda x: args[0].Eval([x])\<close>, called when the map object is read.\<close>

fun Map_lambda :: "executor \<Rightarrow> Type list \<Rightarrow> pyobj \<Rightarrow> state \<Rightarrow> (error + Type) \<times> state" where
  "Map_lambda ExecList (a0 # rest) x s = Function_Eval ExecList a0 [x] s"
| "Map_lambda ExecList [] x s = (Inl IndexError, s)"

text \<open>The items a map object has not passed to its function yet.\<close>

fun remaining :: "map_object \<Rightarrow> pyobj list" where
  "remaining (MapObject args xs) = xs"

text \<open>Reading a map object to its end (\<^verbatim>\<open>list(m)\<close>, a \<^verbatim>\<open>for\<close> loop, \<^verbatim>\<open>str.join\<close>, ...): each
  step takes the next item out of the object and calls the function on it. The results
  come in a list, together with the object as the reading left it and the state. An
  exception ends the reading; the item that raised it is gone from the object.\<close>

function map_read ::
  "executor \<Rightarrow> map_object \<Rightarrow> state \<Rightarrow> (error + Type list) \<times> map_object \<times> state"
where
  "map_read ExecList (MapObject args []) s = (Inr [], MapObject args [], s)"
| "map_read ExecList (MapObject args (x # xs)) s =
     (case Map_lambda ExecList args x s of
        (Inl err, s') \<Rightarrow> (Inl err, MapObject args xs, s')
      | (Inr y, s') \<Rightarrow>
          (case map_read ExecList (MapObject args xs) s' of
             (Inl err, m, s'') \<Rightarrow> (Inl err, m, s'')
           | (Inr ys, m, s'') \<Rightarrow> (Inr (y # ys), m, s'')))"
  by pat_completeness auto

termination map_read
  by (relation "measure (\<lambda>(ExecList, m, s). length (remaining m))") simp_all

subsection \<open>\<^verbatim>\<open>_Assert\<close>\<close>

text \<open>\<^verbatim>\<open>_Assert(args)\<close>: the one call of \<^verbatim>\<open>print\<close> appends its three objects to the output
  stream. The function returns \<^verbatim>\<open>None\<close>.\<close>

definition Assert :: "Type list \<Rightarrow> state \<Rightarrow> (error + pyobj) \<times> state" where
  "Assert args s =
     (case Eq args of
        Inl err \<Rightarrow> (Inl err, s)
      | Inr b \<Rightarrow>
          (if \<not> b
           then (case args of
                   a0 # a1 # rest \<Rightarrow>
                     (Inr PNone, s\<lparr>stdout := stdout s @ [[PStr ''Assert failed:'', PType a0, PType a1]]\<rparr>)
                 | _ \<Rightarrow> (Inl IndexError, s))
           else (Inr PNone, s)))"

section \<open>Example instances of the evaluator core\<close>

text \<open>Modelled from the spec: \<^verbatim>\<open>_Eval\<close> is called by li.py but it is not part of it. This
  evaluator covers the nodes that the examples below use: an already evaluated runtime
  value is returned as it is, a text or whole-number literal becomes the String or Number
  of its payload, and every other node is rejected. It only instantiates the parameter
  \<open>Eval\<close> in concrete examples.\<close>

definition eval_literal :: evaluator where
  "eval_literal v env s =
     (case v of
        PType x \<Rightarrow> (Inr x, s)
      | PStr t \<Rightarrow> (Inr (String t env), s)
      | PInt i \<Rightarrow> (Inr (Number (NInt i) env), s)
      | _ \<Rightarrow> (Inl (JSOLSyntaxError ''node''), s))"

text \<open>Modelled from the spec: \<^verbatim>\<open>_ExecList\<close> is called by li.py but it is not part of it.
  This executor runs one body only, that of the increment function of the spec's example
  for \<^verbatim>\<open>map\<close>: it looks the parameter \<open>x\<close> up in the environment of the call and returns the
  Number that is one greater. It only instantiates the parameter \<open>ExecList\<close> in concrete
  examples.\<close>

definition exec_increment :: executor where
  "exec_increment body env s =
     (case getitem env ''x'' s of
        (Inl err, s') \<Rightarrow> (Inl (UnboundVariableError ''x''), s')
      | (Inr (PType (Number (NInt i) e)), s') \<Rightarrow> (Inr (Number (NInt (i + 1)) env), s')
      | (Inr other, s') \<Rightarrow> (Inl TypeError, s'))"

section \<open>Properties\<close>

subsection \<open>Binding of parameters\<close>

lemma dom_dict_zip: "dom (dict_zip ps args) = set (take (length args) ps)"
proof -
  have "dom (dict_zip ps args) = fst ` set (zip ps args)"
    by (simp add: dict_zip_def dom_map_of_conv_image_fst)
  also have "\<dots> = set (map fst (zip ps args))"
    by simp
  also have "\<dots> = set (take (length args) ps)"
    by (simp add: map_fst_zip_take min_def)
  finally show ?thesis .
qed

lemma dict_zip_take:
  "dict_zip ps args = dict_zip (take (min (length ps) (length args)) ps) (take (min (length ps) (length args)) args)"
  by (simp add: dict_zip_def take_zip [symmetric])

lemma dict_zip_nth:
  assumes "distinct ps" "j < length ps" "j < length args"
  shows "dict_zip ps args (ps ! j) = Some (args ! j)"
proof -
  have d: "distinct (map fst (rev (zip ps args)))"
    using assms(1) by (simp add: rev_map[symmetric] map_fst_zip_take distinct_rev)
  have "(ps ! j, args ! j) \<in> set (rev (zip ps args))"
    using assms(2,3) by (auto simp: set_zip)
  with d show ?thesis
    unfolding dict_zip_def by (rule map_of_is_SomeI)
qed

lemma dict_zip_trailing:
  assumes "distinct ps" "length args \<le> j" "j < length ps"
  shows "dict_zip ps args (ps ! j) = None"
proof -
  have "ps ! j \<notin> set (take (length args) ps)"
  proof
    assume "ps ! j \<in> set (take (length args) ps)"
    then obtain m where m: "m < length (take (length args) ps)" "take (length args) ps ! m = ps ! j"
      by (auto simp: in_set_conv_nth)
    then have "m < length args" "m < length ps" "ps ! m = ps ! j"
      by simp_all
    with assms have "m = j"
      by (simp add: nth_eq_iff_index_eq)
    with \<open>m < length args\<close> assms(2) show False
      by simp
  qed
  then show ?thesis
    by (simp add: dom_dict_zip [symmetric] domIff)
qed

text \<open>C2: a Function with parameter list \<open>ps\<close> applied to an argument list \<open>args\<close> of
  any length (in particular a different one) binds parameters to arguments by position up
  to the shorter list. The call layer is the new dict \<open>dict_zip ps args\<close>; its keys are the
  first \<open>length args\<close> parameters, it is the same as for both lists cut to the shorter
  length (extra arguments are dropped), and for distinct parameter names every parameter
  that has an argument is bound to it while every trailing parameter is unbound. Binding
  raises nothing: the call is the run of \<^verbatim>\<open>_ExecList\<close> on the body in that environment.\<close>

theorem Function_Eval_binding:
  "Function_Eval ExecList (Function i ps d e) args s =
     ExecList d (FunctionEnv (Function i ps d e) e (fresh s))
       (s\<lparr>dicts := (dicts s)(fresh s := dict_zip ps args), fresh := Suc (fresh s)\<rparr>) \<and>
   dom (dict_zip ps args) = set (take (length args) ps) \<and>
   dict_zip ps args =
     dict_zip (take (min (length ps) (length args)) ps) (take (min (length ps) (length args)) args) \<and>
   (distinct ps \<longrightarrow>
      (\<forall>j. j < length ps \<and> j < length args \<longrightarrow> dict_zip ps args (ps ! j) = Some (args ! j)) \<and>
      (\<forall>j. length args \<le> j \<and> j < length ps \<longrightarrow> dict_zip ps args (ps ! j) = None))"
proof (intro conjI impI allI)
  show "Function_Eval ExecList (Function i ps d e) args s =
     ExecList d (FunctionEnv (Function i ps d e) e (fresh s))
       (s\<lparr>dicts := (dicts s)(fresh s := dict_zip ps args), fresh := Suc (fresh s)\<rparr>)"
    by (simp add: new_dict_def)
  show "dom (dict_zip ps args) = set (take (length args) ps)"
    by (rule dom_dict_zip)
  show "dict_zip ps args =
     dict_zip (take (min (length ps) (length args)) ps) (take (min (length ps) (length args)) args)"
    by (rule dict_zip_take)
next
  fix j assume "distinct ps" "j < length ps \<and> j < length args"
  then show "dict_zip ps args (ps ! j) = Some (args ! j)"
    by (simp add: dict_zip_nth)
next
  fix j assume "distinct ps" "length args \<le> j \<and> j < length ps"
  then show "dict_zip ps args (ps ! j) = None"
    by (simp add: dict_zip_trailing)
qed

theorem Function_Eval_binding_witness:
  "dict_zip [''a'', ''b''] [PInt 1] ''a'' = Some (PInt 1) \<and>
   dict_zip [''a'', ''b''] [PInt 1] ''b'' = None \<and>
   dict_zip [''a'', ''b''] [PInt 1, PInt 2, PInt 3] ''a'' = Some (PInt 1) \<and>
   dict_zip [''a'', ''b''] [PInt 1, PInt 2, PInt 3] ''b'' = Some (PInt 2) \<and>
   dom (dict_zip [''a'', ''b''] [PInt 1, PInt 2, PInt 3]) = {''a'', ''b''} \<and>
   Function_Eval (\<lambda>d env s. (Inr (Null env), s)) (Function 0 [''a'', ''b''] [] 0) [PInt 1]
       \<lparr>dicts = (\<lambda>a. Map.empty), fresh = 1, stdout = []\<rparr> =
     (Inr (Null (FunctionEnv (Function 0 [''a'', ''b''] [] 0) 0 1)),
      \<lparr>dicts = (\<lambda>a. Map.empty)(1 := dict_zip [''a'', ''b''] [PInt 1]), fresh = 2, stdout = []\<rparr>)"
proof -
  have d: "distinct [''a'', ''b'']"
    by simp
  note short = Function_Eval_binding [of "\<lambda>d env s. (Inr (Null env), s)" 0 "[''a'', ''b'']" "[]" 0
      "[PInt 1]" "\<lparr>dicts = (\<lambda>a. Map.empty), fresh = 1, stdout = []\<rparr>"]
  note long = Function_Eval_binding [of "\<lambda>d env s. (Inr (Null env), s)" 0 "[''a'', ''b'']" "[]" 0
      "[PInt 1, PInt 2, PInt 3]" "\<lparr>dicts = (\<lambda>a. Map.empty), fresh = 1, stdout = []\<rparr>"]
  from short d have sh:
    "(\<forall>j. j < length [''a'', ''b''] \<and> j < length [PInt 1] \<longrightarrow>
          dict_zip [''a'', ''b''] [PInt 1] ([''a'', ''b''] ! j) = Some ([PInt 1] ! j)) \<and>
     (\<forall>j. length [PInt 1] \<le> j \<and> j < length [''a'', ''b''] \<longrightarrow>
          dict_zip [''a'', ''b''] [PInt 1] ([''a'', ''b''] ! j) = None)"
    by blast
  from long d have lg:
    "\<forall>j. j < length [''a'', ''b''] \<and> j < length [PInt 1, PInt 2, PInt 3] \<longrightarrow>
          dict_zip [''a'', ''b''] [PInt 1, PInt 2, PInt 3] ([''a'', ''b''] ! j) =
          Some ([PInt 1, PInt 2, PInt 3] ! j)"
    by blast
  have s0: "dict_zip [''a'', ''b''] [PInt 1] ''a'' = Some (PInt 1)"
    using sh [THEN conjunct1, THEN spec, of 0] by simp
  have s1: "dict_zip [''a'', ''b''] [PInt 1] ''b'' = None"
    using sh [THEN conjunct2, THEN spec, of 1] by simp
  have l0: "dict_zip [''a'', ''b''] [PInt 1, PInt 2, PInt 3] ''a'' = Some (PInt 1)"
    using lg [THEN spec, of 0] by simp
  have l1: "dict_zip [''a'', ''b''] [PInt 1, PInt 2, PInt 3] ''b'' = Some (PInt 2)"
    using lg [THEN spec, of 1] by simp
  have l2: "dom (dict_zip [''a'', ''b''] [PInt 1, PInt 2, PInt 3]) = {''a'', ''b''}"
    using long [THEN conjunct2, THEN conjunct1] by simp
  have s2: "Function_Eval (\<lambda>d env s. (Inr (Null env), s)) (Function 0 [''a'', ''b''] [] 0) [PInt 1]
       \<lparr>dicts = (\<lambda>a. Map.empty), fresh = 1, stdout = []\<rparr> =
     (Inr (Null (FunctionEnv (Function 0 [''a'', ''b''] [] 0) 0 1)),
      \<lparr>dicts = (\<lambda>a. Map.empty)(1 := dict_zip [''a'', ''b''] [PInt 1]), fresh = 2, stdout = []\<rparr>)"
    using short [THEN conjunct1] by simp
  from s0 s1 l0 l1 l2 s2 show ?thesis
    by (intro conjI)
qed

subsection \<open>Writes through a function-call environment\<close>

text \<open>C1 (amended): for every function-call environment, whose call layer \<open>r\<close> is a dict
  other than the defining layer \<open>e\<close>, and every key \<open>k\<close>, writing \<open>v\<close> to \<open>k\<close> stores it in
  the call layer when \<open>k\<close> already has a call-layer binding or has no defining-layer binding,
  and leaves the defining layer as it was; otherwise (\<open>k\<close> is bound in the defining layer
  only) it stores it in the defining layer itself, in place, and leaves the call layer as
  it was. Hence, in the environment of a call with parameters \<open>ps\<close> and arguments \<open>args\<close>, an
  assignment to a parameter that received an argument or to a name the defining layer
  does not bind never changes the defining layer, while an assignment to a captured name
  that is not such a parameter does.\<close>

theorem setitem_layers:
  assumes "e \<noteq> r"
  shows "(k \<in> dom (dicts s r) \<or> k \<notin> dom (dicts s e) \<longrightarrow>
            setitem (FunctionEnv og e r) k v s = s\<lparr>dicts := (dicts s)(r := (dicts s r)(k \<mapsto> v))\<rparr> \<and>
            dicts (setitem (FunctionEnv og e r) k v s) r = (dicts s r)(k \<mapsto> v) \<and>
            dicts (setitem (FunctionEnv og e r) k v s) e = dicts s e) \<and>
         (k \<notin> dom (dicts s r) \<and> k \<in> dom (dicts s e) \<longrightarrow>
            setitem (FunctionEnv og e r) k v s = s\<lparr>dicts := (dicts s)(e := (dicts s e)(k \<mapsto> v))\<rparr> \<and>
            dicts (setitem (FunctionEnv og e r) k v s) e = (dicts s e)(k \<mapsto> v) \<and>
            dicts (setitem (FunctionEnv og e r) k v s) r = dicts s r) \<and>
         (dicts s r = dict_zip ps args \<and> (k \<in> set (take (length args) ps) \<or> k \<notin> dom (dicts s e)) \<longrightarrow>
            dicts (setitem (FunctionEnv og e r) k v s) e = dicts s e) \<and>
         (dicts s r = dict_zip ps args \<and> k \<notin> set (take (length args) ps) \<and> k \<in> dom (dicts s e) \<longrightarrow>
            dicts (setitem (FunctionEnv og e r) k v s) e = (dicts s e)(k \<mapsto> v))"
proof (intro conjI impI)
  assume "k \<in> dom (dicts s r) \<or> k \<notin> dom (dicts s e)"
  then show "setitem (FunctionEnv og e r) k v s = s\<lparr>dicts := (dicts s)(r := (dicts s r)(k \<mapsto> v))\<rparr>"
    by auto
  then show "dicts (setitem (FunctionEnv og e r) k v s) r = (dicts s r)(k \<mapsto> v)"
    and "dicts (setitem (FunctionEnv og e r) k v s) e = dicts s e"
    using assms by simp_all
next
  assume "k \<notin> dom (dicts s r) \<and> k \<in> dom (dicts s e)"
  then show "setitem (FunctionEnv og e r) k v s = s\<lparr>dicts := (dicts s)(e := (dicts s e)(k \<mapsto> v))\<rparr>"
    by auto
  then show "dicts (setitem (FunctionEnv og e r) k v s) e = (dicts s e)(k \<mapsto> v)"
    and "dicts (setitem (FunctionEnv og e r) k v s) r = dicts s r"
    using assms by simp_all
next
  assume "dicts s r = dict_zip ps args \<and> (k \<in> set (take (length args) ps) \<or> k \<notin> dom (dicts s e))"
  then have "k \<in> dom (dicts s r) \<or> k \<notin> dom (dicts s e)"
    by (auto simp: dom_dict_zip)
  then show "dicts (setitem (FunctionEnv og e r) k v s) e = dicts s e"
    using assms by auto
next
  assume "dicts s r = dict_zip ps args \<and> k \<notin> set (take (length args) ps) \<and> k \<in> dom (dicts s e)"
  then have "k \<notin> dom (dicts s r) \<and> k \<in> dom (dicts s e)"
    by (auto simp: dom_dict_zip)
  then show "dicts (setitem (FunctionEnv og e r) k v s) e = (dicts s e)(k \<mapsto> v)"
    using assms by auto
qed

theorem setitem_layers_witness:
  "dicts (setitem (FunctionEnv (Function 0 [''x''] [] 0) 0 1) ''x'' (PInt 7)
      \<lparr>dicts = (\<lambda>a. Map.empty)(0 := [''x'' \<mapsto> PInt 5, ''n'' \<mapsto> PInt 0], 1 := dict_zip [''x''] [PInt 1]),
        fresh = 2, stdout = []\<rparr>) 0 = [''x'' \<mapsto> PInt 5, ''n'' \<mapsto> PInt 0] \<and>
   dicts (setitem (FunctionEnv (Function 0 [''x''] [] 0) 0 1) ''y'' (PInt 7)
      \<lparr>dicts = (\<lambda>a. Map.empty)(0 := [''x'' \<mapsto> PInt 5, ''n'' \<mapsto> PInt 0], 1 := dict_zip [''x''] [PInt 1]),
        fresh = 2, stdout = []\<rparr>) 0 = [''x'' \<mapsto> PInt 5, ''n'' \<mapsto> PInt 0] \<and>
   dicts (setitem (FunctionEnv (Function 0 [''x''] [] 0) 0 1) ''n'' (PInt 7)
      \<lparr>dicts = (\<lambda>a. Map.empty)(0 := [''x'' \<mapsto> PInt 5, ''n'' \<mapsto> PInt 0], 1 := dict_zip [''x''] [PInt 1]),
        fresh = 2, stdout = []\<rparr>) 0 = [''x'' \<mapsto> PInt 5, ''n'' \<mapsto> PInt 7] \<and>
   dicts (setitem (FunctionEnv (Function 0 [''x''] [] 0) 0 1) ''n'' (PInt 7)
      \<lparr>dicts = (\<lambda>a. Map.empty)(0 := [''x'' \<mapsto> PInt 5, ''n'' \<mapsto> PInt 0], 1 := dict_zip [''x''] [PInt 1]),
        fresh = 2, stdout = []\<rparr>) 1 = dict_zip [''x''] [PInt 1]"
proof -
  let ?s = "\<lparr>dicts = (\<lambda>a. Map.empty)(0 := [''x'' \<mapsto> PInt 5, ''n'' \<mapsto> PInt 0], 1 := dict_zip [''x''] [PInt 1]),
        fresh = 2, stdout = []\<rparr>"
  let ?f = "Function 0 [''x''] [] 0"
  have ne: "(0::nat) \<noteq> 1"
    by simp
  have dz: "dom (dict_zip [''x''] [PInt 1]) = {''x''}"
    by (simp add: dict_zip_def)
  have x: "dicts (setitem (FunctionEnv ?f 0 1) ''x'' (PInt 7) ?s) 0 = dicts ?s 0"
    using setitem_layers [OF ne, of "''x''" ?s ?f "PInt 7" "[''x'']" "[PInt 1]"] dz by simp
  have y: "dicts (setitem (FunctionEnv ?f 0 1) ''y'' (PInt 7) ?s) 0 = dicts ?s 0"
    using setitem_layers [OF ne, of "''y''" ?s ?f "PInt 7" "[''x'']" "[PInt 1]"] dz by simp
  have n: "dicts (setitem (FunctionEnv ?f 0 1) ''n'' (PInt 7) ?s) 0 = (dicts ?s 0)(''n'' \<mapsto> PInt 7) \<and>
           dicts (setitem (FunctionEnv ?f 0 1) ''n'' (PInt 7) ?s) 1 = dicts ?s 1"
    using setitem_layers [OF ne, of "''n''" ?s ?f "PInt 7" "[''x'']" "[PInt 1]"] dz by simp
  from x y n show ?thesis
    by simp
qed

text \<open>C1 as stated fails for a parameter that the call left unbound. The Function below
  has the parameters \<open>a\<close> and \<open>b\<close> and captured a dict (address 0) that binds \<open>b\<close> to 5. It
  is applied to the single argument 1, and its body assigns 7 to \<open>b\<close>. Although \<open>b\<close> is a
  parameter name, the write lands in the defining layer, which binds \<open>b\<close> to 7 afterwards.\<close>

theorem setitem_unbound_parameter_counterexample:
  "''b'' \<in> set (params (Function 0 [''a'', ''b''] [] 0)) \<and>
   dicts \<lparr>dicts = (\<lambda>a. Map.empty)(0 := [''b'' \<mapsto> PInt 5]), fresh = 1, stdout = []\<rparr> 0 ''b'' = Some (PInt 5) \<and>
   dicts (snd (Function_Eval (\<lambda>d env s. (Inr (Null env), setitem env ''b'' (PInt 7) s))
                 (Function 0 [''a'', ''b''] [] 0) [PInt 1]
                 \<lparr>dicts = (\<lambda>a. Map.empty)(0 := [''b'' \<mapsto> PInt 5]), fresh = 1, stdout = []\<rparr>)) 0 ''b''
     = Some (PInt 7)"
  by (simp add: new_dict_def dict_zip_def)

subsection \<open>Reads through a function-call environment\<close>

text \<open>C10: for every function-call environment whose two layers are existing dicts, and
  every key \<open>k\<close>, a read (\<^verbatim>\<open>get\<close> with or without a default, or a subscript lookup) leaves
  the defining layer, the call layer and every other existing dict unchanged: its only
  effect is the new dict that \<^verbatim>\<open>copy\<close> builds, the defining layer overlaid with the call
  layer. The value read is the lookup in that overlay, so a call-layer binding shadows a
  defining-layer binding of the same key.\<close>

theorem reads_leave_layers_unchanged:
  assumes "e < fresh s" and "r < fresh s"
  shows "snd (get (FunctionEnv og e r) k dflt s) =
           s\<lparr>dicts := (dicts s)(fresh s := dicts s e ++ dicts s r), fresh := Suc (fresh s)\<rparr> \<and>
         snd (getitem (FunctionEnv og e r) k s) =
           s\<lparr>dicts := (dicts s)(fresh s := dicts s e ++ dicts s r), fresh := Suc (fresh s)\<rparr> \<and>
         dicts (snd (get (FunctionEnv og e r) k dflt s)) e = dicts s e \<and>
         dicts (snd (get (FunctionEnv og e r) k dflt s)) r = dicts s r \<and>
         dicts (snd (getitem (FunctionEnv og e r) k s)) e = dicts s e \<and>
         dicts (snd (getitem (FunctionEnv og e r) k s)) r = dicts s r \<and>
         (\<forall>a. a < fresh s \<longrightarrow>
            dicts (snd (get (FunctionEnv og e r) k dflt s)) a = dicts s a \<and>
            dicts (snd (getitem (FunctionEnv og e r) k s)) a = dicts s a) \<and>
         fst (get (FunctionEnv og e r) k dflt s) = dict_get (dicts s e ++ dicts s r) k dflt \<and>
         fst (getitem (FunctionEnv og e r) k s) = dict_getitem (dicts s e ++ dicts s r) k \<and>
         (\<forall>v. dicts s r k = Some v \<longrightarrow>
            fst (get (FunctionEnv og e r) k dflt s) = v \<and>
            fst (getitem (FunctionEnv og e r) k s) = Inr v) \<and>
         (\<forall>v. dicts s r k = None \<and> dicts s e k = Some v \<longrightarrow>
            fst (get (FunctionEnv og e r) k dflt s) = v \<and>
            fst (getitem (FunctionEnv og e r) k s) = Inr v)"
proof -
  have g: "get (FunctionEnv og e r) k dflt s =
      (dict_get (dicts s e ++ dicts s r) k dflt,
       s\<lparr>dicts := (dicts s)(fresh s := dicts s e ++ dicts s r), fresh := Suc (fresh s)\<rparr>)"
    by (simp add: new_dict_def)
  have i: "getitem (FunctionEnv og e r) k s =
      (dict_getitem (dicts s e ++ dicts s r) k,
       s\<lparr>dicts := (dicts s)(fresh s := dicts s e ++ dicts s r), fresh := Suc (fresh s)\<rparr>)"
    by (simp add: new_dict_def)
  from assms have ne: "e \<noteq> fresh s" "r \<noteq> fresh s"
    by simp_all
  show ?thesis
    unfolding g i using ne
    by (auto simp: dict_get_def dict_getitem_def map_add_def)
qed

theorem reads_leave_layers_unchanged_witness:
  "fst (get (FunctionEnv (Function 0 [''x''] [] 0) 0 1) ''x'' None
      \<lparr>dicts = (\<lambda>a. Map.empty)(0 := [''x'' \<mapsto> PInt 5, ''n'' \<mapsto> PInt 0], 1 := [''x'' \<mapsto> PInt 1]),
        fresh = 2, stdout = []\<rparr>) = PInt 1 \<and>
   fst (getitem (FunctionEnv (Function 0 [''x''] [] 0) 0 1) ''n''
      \<lparr>dicts = (\<lambda>a. Map.empty)(0 := [''x'' \<mapsto> PInt 5, ''n'' \<mapsto> PInt 0], 1 := [''x'' \<mapsto> PInt 1]),
        fresh = 2, stdout = []\<rparr>) = Inr (PInt 0) \<and>
   fst (get (FunctionEnv (Function 0 [''x''] [] 0) 0 1) ''z'' (Some (PInt 9))
      \<lparr>dicts = (\<lambda>a. Map.empty)(0 := [''x'' \<mapsto> PInt 5, ''n'' \<mapsto> PInt 0], 1 := [''x'' \<mapsto> PInt 1]),
        fresh = 2, stdout = []\<rparr>) = PInt 9 \<and>
   fst (getitem (FunctionEnv (Function 0 [''x''] [] 0) 0 1) ''z''
      \<lparr>dicts = (\<lambda>a. Map.empty)(0 := [''x'' \<mapsto> PInt 5, ''n'' \<mapsto> PInt 0], 1 := [''x'' \<mapsto> PInt 1]),
        fresh = 2, stdout = []\<rparr>) = Inl (KeyError ''z'') \<and>
   dicts (snd (get (FunctionEnv (Function 0 [''x''] [] 0) 0 1) ''x'' None
      \<lparr>dicts = (\<lambda>a. Map.empty)(0 := [''x'' \<mapsto> PInt 5, ''n'' \<mapsto> PInt 0], 1 := [''x'' \<mapsto> PInt 1]),
        fresh = 2, stdout = []\<rparr>)) 0 = [''x'' \<mapsto> PInt 5, ''n'' \<mapsto> PInt 0] \<and>
   dicts (snd (getitem (FunctionEnv (Function 0 [''x''] [] 0) 0 1) ''z''
      \<lparr>dicts = (\<lambda>a. Map.empty)(0 := [''x'' \<mapsto> PInt 5, ''n'' \<mapsto> PInt 0], 1 := [''x'' \<mapsto> PInt 1]),
        fresh = 2, stdout = []\<rparr>)) 1 = [''x'' \<mapsto> PInt 1]"
proof -
  let ?s = "\<lparr>dicts = (\<lambda>a. Map.empty)(0 := [''x'' \<mapsto> PInt 5, ''n'' \<mapsto> PInt 0], 1 := [''x'' \<mapsto> PInt 1]),
        fresh = 2, stdout = []\<rparr>"
  let ?f = "Function 0 [''x''] [] 0"
  have e: "0 < fresh ?s" and r: "1 < fresh ?s"
    by simp_all
  note x = reads_leave_layers_unchanged [OF e r, of ?f "''x''" None]
  note n = reads_leave_layers_unchanged [OF e r, of ?f "''n''" None]
  note z = reads_leave_layers_unchanged [OF e r, of ?f "''z''" "Some (PInt 9)"]
  have 1: "fst (get (FunctionEnv ?f 0 1) ''x'' None ?s) = PInt 1"
    using x by (simp add: dict_get_def dict_getitem_def new_dict_def)
  have 2: "fst (getitem (FunctionEnv ?f 0 1) ''n'' ?s) = Inr (PInt 0)"
    using n by (simp add: dict_get_def dict_getitem_def new_dict_def)
  have 3: "fst (get (FunctionEnv ?f 0 1) ''z'' (Some (PInt 9)) ?s) = PInt 9"
    using z by (simp add: dict_get_def dict_getitem_def new_dict_def)
  have 4: "fst (getitem (FunctionEnv ?f 0 1) ''z'' ?s) = Inl (KeyError ''z'')"
    using z by (simp add: dict_get_def dict_getitem_def new_dict_def)
  have 5: "dicts (snd (get (FunctionEnv ?f 0 1) ''x'' None ?s)) 0 = dicts ?s 0"
    using x by blast
  have 6: "dicts (snd (getitem (FunctionEnv ?f 0 1) ''z'' ?s)) 1 = dicts ?s 1"
    using z by blast
  from 1 2 3 4 5 6 show ?thesis
    by simp
qed

subsection \<open>Chained equality\<close>

lemma py_all_Inr: "py_all (map (\<lambda>x. Inr (P x)) xs) = Inr (\<forall>x\<in>set xs. P x)"
  by (induction xs) simp_all

lemma py_all_Inr_cong:
  assumes "\<And>x. x \<in> set xs \<Longrightarrow> f x = Inr (P x)"
  shows "py_all (map f xs) = Inr (\<forall>x\<in>set xs. P x)"
proof -
  have "map f xs = map (\<lambda>x. Inr (P x)) xs"
    using assms by simp
  then show ?thesis
    by (simp only: py_all_Inr)
qed

lemma py_eq_num_obj: "py_eq (num_obj m) (num_obj n) = Inr (num_val m = num_val n)"
  by (cases m; cases n) auto

lemma py_eq_num_obj_left:
  "py_eq (num_obj m) (PList xs) = Inr False" "py_eq (num_obj m) (PDict d) = Inr False"
  "py_eq (num_obj m) (PStr t) = Inr False" "py_eq (num_obj m) PNone = Inr False"
  "py_eq (num_obj m) (PType (Function i ps df e)) = Inr False"
  by (cases m; simp)+

lemma py_eq_num_obj_right:
  "py_eq (PList xs) (num_obj m) = Inr False" "py_eq (PDict d) (num_obj m) = Inr False"
  "py_eq (PStr t) (num_obj m) = Inr False" "py_eq PNone (num_obj m) = Inr False"
  "py_eq (PType (Function i ps df e)) (num_obj m) = Inr False"
  by (cases m; simp)+

lemma py_eq_lists:
  "py_eq (PList (map PType xs)) (PList (map PType ys)) = Inr (list_all2 val_eq xs ys)"
proof (cases "length xs = length ys")
  case True
  have "map (\<lambda>(x, y). py_eq x y) (zip (map PType xs) (map PType ys)) =
        map (\<lambda>p. Inr (val_eq (fst p) (snd p))) (zip xs ys)"
    by (simp add: zip_map_map case_prod_beta)
  then have "py_eq (PList (map PType xs)) (PList (map PType ys)) =
        Inr (\<forall>p\<in>set (zip xs ys). val_eq (fst p) (snd p))"
    using True by (simp add: py_all_Inr)
  also have "(\<forall>p\<in>set (zip xs ys). val_eq (fst p) (snd p)) = list_all2 val_eq xs ys"
    using True by (auto simp: list_all2_iff)
  finally show ?thesis .
next
  case False
  then show ?thesis
    by (auto dest: list_all2_lengthD)
qed

lemma py_eq_dicts:
  "py_eq (PDict (map (\<lambda>(k, v). (k, PType v)) d)) (PDict (map (\<lambda>(k, v). (k, PType v)) d')) =
     Inr (length d = length d' \<and>
          list_all (\<lambda>(k, x). case map_of d' k of None \<Rightarrow> False | Some y \<Rightarrow> val_eq x y) d)"
proof (cases "length d = length d'")
  case True
  have m: "map_of (map (\<lambda>(k, v). (k, PType v)) d') k = map_option PType (map_of d' k)" for k
    by (induction d') auto
  let ?g = "\<lambda>(k, x). case map_of (map (\<lambda>(k, v). (k, PType v)) d') k of
                          None \<Rightarrow> Inr False | Some y \<Rightarrow> py_eq x y"
  let ?D = "map (\<lambda>(k, v). (k, PType v)) d" and ?D' = "map (\<lambda>(k, v). (k, PType v)) d'"
  have A: "py_eq (PDict ?D) (PDict ?D') = py_all (map ?g ?D)"
    using True by simp
  have B: "map ?g ?D = map (\<lambda>p. ?g (fst p, PType (snd p))) d"
    by (simp add: case_prod_beta comp_def)
  have C: "py_all (map (\<lambda>p. ?g (fst p, PType (snd p))) d) =
        Inr (\<forall>p\<in>set d. case map_of d' (fst p) of None \<Rightarrow> False | Some y \<Rightarrow> val_eq (snd p) y)"
    by (rule py_all_Inr_cong) (simp add: m split: option.splits)
  have D: "(\<forall>p\<in>set d. case map_of d' (fst p) of None \<Rightarrow> False | Some y \<Rightarrow> val_eq (snd p) y) =
        (length d = length d' \<and>
          list_all (\<lambda>(k, x). case map_of d' k of None \<Rightarrow> False | Some y \<Rightarrow> val_eq x y) d)"
    using True by (simp add: list_all_iff case_prod_beta)
  show ?thesis
    unfolding A B C D ..
next
  case False
  then show ?thesis
    by simp
qed

lemma py_eq_val: "py_eq (val a) (val b) = Inr (val_eq a b)"
proof (cases a)
  case a: (List xs e)
  show ?thesis
  proof (cases b)
    case (List ys e')
    with a show ?thesis
      by (simp add: py_eq_lists del: py_eq.simps)
  qed (simp_all add: a py_eq_num_obj_right)
next
  case a: (Dict d e)
  show ?thesis
  proof (cases b)
    case (Dict d' e')
    with a show ?thesis
      by (simp add: py_eq_dicts del: py_eq.simps)
  qed (simp_all add: a py_eq_num_obj_right)
next
  case (String t e)
  then show ?thesis
    by (cases b) (simp_all add: py_eq_num_obj_right)
next
  case (Number n e)
  then show ?thesis
    by (cases b) (simp_all add: py_eq_num_obj py_eq_num_obj_left)
next
  case (Null e)
  then show ?thesis
    by (cases b) (simp_all add: py_eq_num_obj_right)
next
  case (Function i ps df e)
  then show ?thesis
    by (cases b) (simp_all add: py_eq_num_obj_right)
qed


lemma Eq_val_eq:
  "Eq args = Inr (\<forall>i. i + 1 < length args \<longrightarrow> val_eq (args ! i) (args ! (i + 1)))"
proof -
  have "Eq args = Inr (\<forall>i\<in>set [0..<length args - 1]. val_eq (args ! i) (args ! (i + 1)))"
    unfolding Eq_def Cond_def by (rule py_all_Inr_cong) (rule py_eq_val)
  moreover have "(\<forall>i\<in>set [0..<length args - 1]. val_eq (args ! i) (args ! (i + 1))) =
      (\<forall>i. i + 1 < length args \<longrightarrow> val_eq (args ! i) (args ! (i + 1)))"
    by auto
  ultimately show ?thesis
    by simp
qed

text \<open>C4: for every argument list, \<^verbatim>\<open>eq\<close> raises nothing and returns true if and only if
  every adjacent pair of arguments (positions 0-1, 1-2, ...) has equal payloads, that is
  \<^verbatim>\<open>==\<close> on the two payloads yields true; applied to no argument or to one argument it
  returns true.\<close>

theorem Eq_adjacent_pairs:
  "(Eq args = Inr True \<or> Eq args = Inr False) \<and>
   (Eq args = Inr True) =
     (\<forall>i. i + 1 < length args \<longrightarrow> py_eq (val (args ! i)) (val (args ! (i + 1))) = Inr True) \<and>
   (length args \<le> 1 \<longrightarrow> Eq args = Inr True)"
  by (auto simp: Eq_val_eq py_eq_val)

theorem Eq_adjacent_pairs_witness:
  "Eq [] = Inr True \<and>
   Eq [String ''a'' (EnvDict 0)] = Inr True \<and>
   Eq [Number (NInt 1) (EnvDict 0), Number (NInt 1) (EnvDict 0), Number (NInt 1) (EnvDict 0)] = Inr True \<and>
   Eq [Number (NInt 1) (EnvDict 0), Number (NInt 1) (EnvDict 0), Number (NInt 2) (EnvDict 0)] = Inr False"
proof -
  let ?one = "Number (NInt 1) (EnvDict 0)" and ?two = "Number (NInt 2) (EnvDict 0)"
  have 0: "Eq [] = Inr True"
    using Eq_adjacent_pairs [of "[]"] by simp
  have 1: "Eq [String ''a'' (EnvDict 0)] = Inr True"
    using Eq_adjacent_pairs [of "[String ''a'' (EnvDict 0)]"] by simp
  have "\<forall>i. i + 1 < length [?one, ?one, ?one] \<longrightarrow>
          py_eq (val ([?one, ?one, ?one] ! i)) (val ([?one, ?one, ?one] ! (i + 1))) = Inr True"
    by (simp add: nth_Cons' less_Suc_eq)
  then have 2: "Eq [?one, ?one, ?one] = Inr True"
    using Eq_adjacent_pairs [of "[?one, ?one, ?one]"] by blast
  have "\<not> (\<forall>i. i + 1 < length [?one, ?one, ?two] \<longrightarrow>
          py_eq (val ([?one, ?one, ?two] ! i)) (val ([?one, ?one, ?two] ! (i + 1))) = Inr True)"
    by (auto intro!: exI [of _ 1])
  then have 3: "Eq [?one, ?one, ?two] = Inr False"
    using Eq_adjacent_pairs [of "[?one, ?one, ?two]"] by blast
  from 0 1 2 3 show ?thesis
    by (intro conjI)
qed

subsection \<open>Assertions\<close>

text \<open>C9 (amended): for every argument list, \<^verbatim>\<open>assert\<close> raises nothing and returns \<^verbatim>\<open>None\<close>.
  When the arguments satisfy \<^verbatim>\<open>eq\<close> the state is unchanged, so nothing is printed. When
  they fail it there are at least two arguments, and the only effect is one more entry of
  the output stream: the diagnostic that names the first two arguments, \<^verbatim>\<open>args[0]\<close> and
  \<^verbatim>\<open>args[1]\<close>. With exactly two arguments these are the two compared arguments, whose
  payloads differ. In both cases no dict changes.\<close>

theorem Assert_never_raises:
  "(Eq args = Inr True \<longrightarrow> Assert args s = (Inr PNone, s)) \<and>
   (Eq args = Inr False \<longrightarrow>
      2 \<le> length args \<and>
      Assert args s =
        (Inr PNone, s\<lparr>stdout := stdout s @ [[PStr ''Assert failed:'', PType (args ! 0), PType (args ! 1)]]\<rparr>)) \<and>
   (Eq args = Inr False \<and> length args = 2 \<longrightarrow>
      py_eq (val (args ! 0)) (val (args ! 1)) = Inr False) \<and>
   (\<exists>t. Assert args s = (Inr PNone, t) \<and> dicts t = dicts s \<and> fresh t = fresh s)"
proof -
  have len: "2 \<le> length args" if "Eq args = Inr False"
  proof (rule ccontr)
    assume "\<not> 2 \<le> length args"
    then have "length args \<le> 1"
      by simp
    with Eq_val_eq [of args] have "Eq args = Inr True"
      by simp
    with that show False
      by simp
  qed
  have f: "Assert args s =
        (Inr PNone, s\<lparr>stdout := stdout s @ [[PStr ''Assert failed:'', PType (args ! 0), PType (args ! 1)]]\<rparr>)"
    if "Eq args = Inr False"
  proof -
    from len [OF that] obtain a0 a1 rest where "args = a0 # a1 # rest"
      by (cases args; cases "tl args") auto
    with that show ?thesis
      by (simp add: Assert_def)
  qed
  have t: "Assert args s = (Inr PNone, s)" if "Eq args = Inr True"
    using that by (simp add: Assert_def)
  have two: "py_eq (val (args ! 0)) (val (args ! 1)) = Inr False"
    if "Eq args = Inr False" and "length args = 2"
  proof -
    from that(2) have "(\<forall>i. i + 1 < length args \<longrightarrow> val_eq (args ! i) (args ! (i + 1))) =
        val_eq (args ! 0) (args ! 1)"
      by (auto simp: less_Suc_eq numeral_2_eq_2)
    then have "Eq args = Inr (val_eq (args ! 0) (args ! 1))"
      by (simp only: Eq_val_eq)
    with that(1) have "\<not> val_eq (args ! 0) (args ! 1)"
      by simp
    then show ?thesis
      by (simp add: py_eq_val)
  qed
  have "Eq args = Inr True \<or> Eq args = Inr False"
    by (auto simp: Eq_val_eq)
  with t f len two show ?thesis
    by auto
qed

theorem Assert_never_raises_witness:
  "Assert [Number (NInt 1) (EnvDict 0), Number (NInt 1) (EnvDict 0)]
      \<lparr>dicts = (\<lambda>a. Map.empty), fresh = 1, stdout = []\<rparr> =
     (Inr PNone, \<lparr>dicts = (\<lambda>a. Map.empty), fresh = 1, stdout = []\<rparr>) \<and>
   Assert [Number (NInt 1) (EnvDict 0), Number (NInt 2) (EnvDict 0)]
      \<lparr>dicts = (\<lambda>a. Map.empty), fresh = 1, stdout = []\<rparr> =
     (Inr PNone, \<lparr>dicts = (\<lambda>a. Map.empty), fresh = 1,
        stdout = [[PStr ''Assert failed:'', PType (Number (NInt 1) (EnvDict 0)), PType (Number (NInt 2) (EnvDict 0))]]\<rparr>) \<and>
   py_eq (val (Number (NInt 1) (EnvDict 0))) (val (Number (NInt 2) (EnvDict 0))) = Inr False"
proof -
  let ?one = "Number (NInt 1) (EnvDict 0)" and ?two = "Number (NInt 2) (EnvDict 0)"
  let ?s = "\<lparr>dicts = (\<lambda>a. Map.empty), fresh = 1, stdout = []\<rparr>"
  have "Eq [?one, ?one] = Inr True"
    by (simp add: Eq_def Cond_def)
  then have 1: "Assert [?one, ?one] ?s = (Inr PNone, ?s)"
    using Assert_never_raises [of "[?one, ?one]" ?s] by blast
  have e: "Eq [?one, ?two] = Inr False" and l: "length [?one, ?two] = 2"
    by (simp_all add: Eq_def Cond_def)
  from e have "Assert [?one, ?two] ?s =
      (Inr PNone, ?s\<lparr>stdout := stdout ?s @ [[PStr ''Assert failed:'', PType ([?one, ?two] ! 0), PType ([?one, ?two] ! 1)]]\<rparr>)"
    using Assert_never_raises [of "[?one, ?two]" ?s] by blast
  then have 2: "Assert [?one, ?two] ?s =
      (Inr PNone, \<lparr>dicts = (\<lambda>a. Map.empty), fresh = 1, stdout = [[PStr ''Assert failed:'', PType ?one, PType ?two]]\<rparr>)"
    by simp
  from e l have "py_eq (val ([?one, ?two] ! 0)) (val ([?one, ?two] ! 1)) = Inr False"
    using Assert_never_raises [of "[?one, ?two]" ?s] by blast
  then have 3: "py_eq (val ?one) (val ?two) = Inr False"
    by simp
  from 1 2 3 show ?thesis
    by (intro conjI)
qed

text \<open>C9 as stated fails for the arguments 1, 1, 2: they fail \<^verbatim>\<open>eq\<close> through the pair at
  positions 1 and 2, and the diagnostic names the arguments at positions 0 and 1, which
  are equal, not the pair whose comparison failed.\<close>

theorem Assert_names_first_two_counterexample:
  "Assert [Number (NInt 1) (EnvDict 0), Number (NInt 1) (EnvDict 0), Number (NInt 2) (EnvDict 0)]
      \<lparr>dicts = (\<lambda>a. Map.empty), fresh = 1, stdout = []\<rparr> =
     (Inr PNone, \<lparr>dicts = (\<lambda>a. Map.empty), fresh = 1,
        stdout = [[PStr ''Assert failed:'', PType (Number (NInt 1) (EnvDict 0)), PType (Number (NInt 1) (EnvDict 0))]]\<rparr>) \<and>
   py_eq (val (Number (NInt 1) (EnvDict 0))) (val (Number (NInt 1) (EnvDict 0))) = Inr True \<and>
   py_eq (val (Number (NInt 1) (EnvDict 0))) (val (Number (NInt 2) (EnvDict 0))) = Inr False"
  by (simp add: Assert_def Eq_def Cond_def upt_rec)

subsection \<open>Total length\<close>

lemma py_map_Inr: "py_map (map (\<lambda>x. Inr (f x)) xs) = Inr (map f xs)"
  by (induction xs) simp_all

text \<open>C5: for every list of arguments whose payloads have lengths (\<open>n a\<close> is the length
  of the payload of \<open>a\<close>), \<^verbatim>\<open>len\<close> returns the sum of the lengths of all the payloads;
  applied to two lists of lengths 3 and 2 it returns 5, as the instance after the
  theorem shows.\<close>

theorem Len_sums_lengths:
  assumes "\<forall>a\<in>set args. py_len (val a) = Inr (n a)"
  shows "Len args = Inr (int (sum_list (map n args)))"
proof -
  from assms have "map (\<lambda>x. py_len (val x)) args = map (\<lambda>x. Inr (n x)) args"
    by simp
  then have "py_map (map (\<lambda>x. py_len (val x)) args) = Inr (map n args)"
    by (simp only: py_map_Inr)
  then show ?thesis
    by (simp add: Len_def)
qed

theorem Len_sums_lengths_witness:
  "Len [List [Number (NInt 1) (EnvDict 0), Number (NInt 2) (EnvDict 0), Number (NInt 3) (EnvDict 0)] (EnvDict 0),
        List [Number (NInt 4) (EnvDict 0), Number (NInt 5) (EnvDict 0)] (EnvDict 0)] = Inr 5 \<and>
   Len [String ''abc'' (EnvDict 0), Dict [(''k'', Null (EnvDict 0))] (EnvDict 0)] = Inr 4"
proof -
  let ?n = "\<lambda>a. case py_len (val a) of Inr m \<Rightarrow> m | Inl err \<Rightarrow> 0"
  let ?xs = "List [Number (NInt 1) (EnvDict 0), Number (NInt 2) (EnvDict 0), Number (NInt 3) (EnvDict 0)] (EnvDict 0)"
  let ?ys = "List [Number (NInt 4) (EnvDict 0), Number (NInt 5) (EnvDict 0)] (EnvDict 0)"
  let ?t = "String ''abc'' (EnvDict 0)" and ?d = "Dict [(''k'', Null (EnvDict 0))] (EnvDict 0)"
  have "\<forall>a\<in>set [?xs, ?ys]. py_len (val a) = Inr (?n a)"
    by simp
  from Len_sums_lengths [OF this] have 1: "Len [?xs, ?ys] = Inr 5"
    by simp
  have "\<forall>a\<in>set [?t, ?d]. py_len (val a) = Inr (?n a)"
    by simp
  from Len_sums_lengths [OF this] have 2: "Len [?t, ?d] = Inr 4"
    by simp
  from 1 2 show ?thesis
    by (intro conjI)
qed

subsection \<open>Re-encoding\<close>

lemma zip_keys_values: "zip (map fst d) (map f (map snd d)) = map (\<lambda>(k, x). (k, f x)) d"
  by (induction d) auto

lemma num_obj_not_PDict: "num_obj n \<noteq> PDict kvs"
  by (cases n) simp_all

text \<open>C3: \<^verbatim>\<open>json\<close> is asymmetric across the variants. For a Number or a Null it returns
  the bare payload, which is never a mapping; for a String it returns the one-key mapping
  from \<open>lit\<close> to the payload; for a List and a Dict the one-key mapping from \<open>lit\<close> to the
  list, or the mapping with the same keys, of the re-encoded elements; for a Function the
  mapping of \<open>params\<close> and \<open>def\<close> to the definition it was built from, whatever
  environment it captured.\<close>

theorem json_shapes:
  "json (Number n e) = val (Number n e) \<and>
   json (Null e) = val (Null e) \<and>
   json (Number n e) = num_obj n \<and>
   json (Null e) = PNone \<and>
   (\<forall>kvs. json (Number n e) \<noteq> PDict kvs) \<and>
   (\<forall>kvs. json (Null e) \<noteq> PDict kvs) \<and>
   json (String t e) = PDict [(''lit'', val (String t e))] \<and>
   json (String t e) = PDict [(''lit'', PStr t)] \<and>
   json (List xs e) = PDict [(''lit'', PList (map json xs))] \<and>
   json (Dict d e) = PDict [(''lit'', PDict (map (\<lambda>(k, x). (k, json x)) d))] \<and>
   json (Function i ps df a) = PDict [(''params'', PList (map PStr ps)), (''def'', PList df)] \<and>
   (\<forall>a'. json (Function i ps df a') = json (Function i ps df a))"
proof (intro conjI allI)
  show "json (Dict d e) = PDict [(''lit'', PDict (map (\<lambda>(k, x). (k, json x)) d))]"
    unfolding json.simps zip_keys_values ..
  show "json (Number n e) \<noteq> PDict kvs" for kvs
    by (simp add: num_obj_not_PDict)
qed simp_all

theorem json_shapes_witness:
  "json (Number (NBool True) (EnvDict 0)) = PBool True \<and>
   json (Null (EnvDict 0)) = PNone \<and>
   json (List [Number (NInt 1) (EnvDict 0), String ''a'' (EnvDict 0)] (EnvDict 0)) =
     PDict [(''lit'', PList [PInt 1, PDict [(''lit'', PStr ''a'')]])] \<and>
   json (Dict [(''k'', Null (EnvDict 0))] (EnvDict 0)) = PDict [(''lit'', PDict [(''k'', PNone)])] \<and>
   json (Function 0 [''x''] [PStr ''x''] 3) = PDict [(''params'', PList [PStr ''x'']), (''def'', PList [PStr ''x''])]"
  using json_shapes [of "NBool True" "EnvDict 0" "''a''"
      "[Number (NInt 1) (EnvDict 0), String ''a'' (EnvDict 0)]" "[(''k'', Null (EnvDict 0))]" 0 "[''x'']" "[PStr ''x'']" 3]
  by simp

subsection \<open>Construction of literals\<close>

lemma List_elems_length:
  "List_elems Eval vs env s = (Inr xs, s') \<Longrightarrow> length xs = length vs"
proof (induction vs arbitrary: s xs)
  case Nil
  then show ?case by simp
next
  case (Cons v vs)
  then show ?case
    by (auto split: prod.splits sum.splits)
qed

lemma Dict_values_keys:
  "Dict_values Eval pa kvs denv s = (Inr xs, s') \<Longrightarrow> map fst xs = map fst kvs"
proof (induction kvs arbitrary: s xs)
  case Nil
  then show ?case by simp
next
  case (Cons kv kvs)
  then show ?case
    by (cases kv) (auto split: prod.splits sum.splits)
qed

lemma List_init_is_List:
  assumes "List_init Eval vs env s = (Inr y, s')"
  shows "\<exists>zs. y = List zs env \<and> length zs = length vs"
  using assms by (auto simp: List_init_def List_elems_length split: prod.splits sum.splits)

lemma Dict_init_is_Dict:
  assumes "Dict_init Eval kvs env s = (Inr y, s')"
  shows "\<exists>zs. y = Dict zs env \<and> map fst zs = map fst kvs"
proof -
  obtain pa s0 where p: "new_dict (map_of kvs) s = (pa, s0)"
    by (cases "new_dict (map_of kvs) s")
  obtain de s1 where c: "copy env s0 = (de, s1)"
    by (cases "copy env s0")
  from assms p c obtain xs s2 where
    v: "Dict_values Eval pa kvs (EnvDict de) s1 = (Inr xs, s2)" and
    y: "y = Dict (map (\<lambda>(k, x). (k, rebind pa x)) xs) env"
    by (auto simp: Dict_init_def Let_def split: prod.splits sum.splits)
  from v have "map fst xs = map fst kvs"
    by (rule Dict_values_keys)
  then have "map fst (map (\<lambda>(k, x). (k, rebind pa x)) xs) = map fst kvs"
    by (simp add: case_prod_beta comp_def)
  with y show ?thesis
    by blast
qed

lemma Lit_of_Type: "fst (Lit Eval (PType y) eo s) = Inr y"
  by (cases eo) (simp_all add: Lit_def new_dict_def)

lemma Lit_default_env:
  "Lit Eval v None s =
     Lit Eval v (Some (EnvDict (fresh s)))
       (s\<lparr>dicts := (dicts s)(fresh s := Map.empty), fresh := Suc (fresh s)\<rparr>)"
  by (simp add: Lit_def new_dict_def)

text \<open>C7: \<^verbatim>\<open>Lit\<close> returns a runtime value unchanged, so it is idempotent: whatever value
  \<^verbatim>\<open>Lit\<close> produced, \<^verbatim>\<open>Lit\<close> of that value is the same value. On a raw object it dispatches on
  the native type: a list goes to the constructor of List and a dict to that of Dict
  (which, when they succeed, return a List of as many elements and a Dict of the same
  keys), text becomes a String, an int, a bool or a float a Number, and \<^verbatim>\<open>None\<close> Null, each
  holding the environment given. With the environment omitted, \<^verbatim>\<open>Lit\<close> behaves as with a
  new empty dict as the environment.\<close>

theorem Lit_dispatch:
  "Lit Eval (PType x) (Some env) s = (Inr x, s) \<and>
   fst (Lit Eval (PType x) None s) = Inr x \<and>
   (\<forall>v eo y s'. Lit Eval v eo s = (Inr y, s') \<longrightarrow> fst (Lit Eval (PType y) eo s') = Inr y) \<and>
   Lit Eval (PList xs) (Some env) s = List_init Eval xs env s \<and>
   (\<forall>y s'. List_init Eval xs env s = (Inr y, s') \<longrightarrow> (\<exists>zs. y = List zs env \<and> length zs = length xs)) \<and>
   Lit Eval (PDict kvs) (Some env) s = Dict_init Eval kvs env s \<and>
   (\<forall>y s'. Dict_init Eval kvs env s = (Inr y, s') \<longrightarrow> (\<exists>zs. y = Dict zs env \<and> map fst zs = map fst kvs)) \<and>
   Lit Eval (PStr t) (Some env) s = (Inr (String t env), s) \<and>
   Lit Eval (PInt i) (Some env) s = (Inr (Number (NInt i) env), s) \<and>
   Lit Eval (PBool b) (Some env) s = (Inr (Number (NBool b) env), s) \<and>
   Lit Eval (PFloat r) (Some env) s = (Inr (Number (NFloat r) env), s) \<and>
   Lit Eval PNone (Some env) s = (Inr (Null env), s) \<and>
   (\<forall>v. Lit Eval v None s =
      Lit Eval v (Some (EnvDict (fresh s)))
        (s\<lparr>dicts := (dicts s)(fresh s := Map.empty), fresh := Suc (fresh s)\<rparr>))"
proof -
  have idem: "\<forall>v eo y s'. Lit Eval v eo s = (Inr y, s') \<longrightarrow> fst (Lit Eval (PType y) eo s') = Inr y"
    by (simp add: Lit_of_Type)
  have lst: "\<forall>y s'. List_init Eval xs env s = (Inr y, s') \<longrightarrow>
      (\<exists>zs. y = List zs env \<and> length zs = length xs)"
    by (blast dest: List_init_is_List)
  have dct: "\<forall>y s'. Dict_init Eval kvs env s = (Inr y, s') \<longrightarrow>
      (\<exists>zs. y = Dict zs env \<and> map fst zs = map fst kvs)"
    by (blast dest: Dict_init_is_Dict)
  have dflt: "\<forall>v. Lit Eval v None s =
      Lit Eval v (Some (EnvDict (fresh s)))
        (s\<lparr>dicts := (dicts s)(fresh s := Map.empty), fresh := Suc (fresh s)\<rparr>)"
    by (simp add: Lit_default_env)
  have ty: "Lit Eval (PType x) (Some env) s = (Inr x, s)"
    and li: "Lit Eval (PList xs) (Some env) s = List_init Eval xs env s"
    and di: "Lit Eval (PDict kvs) (Some env) s = Dict_init Eval kvs env s"
    and st: "Lit Eval (PStr t) (Some env) s = (Inr (String t env), s)"
    and nu: "Lit Eval (PInt i) (Some env) s = (Inr (Number (NInt i) env), s)"
    and bo: "Lit Eval (PBool b) (Some env) s = (Inr (Number (NBool b) env), s)"
    and fl: "Lit Eval (PFloat r) (Some env) s = (Inr (Number (NFloat r) env), s)"
    and no: "Lit Eval PNone (Some env) s = (Inr (Null env), s)"
    by (simp_all add: Lit_def)
  have ty': "fst (Lit Eval (PType x) None s) = Inr x"
    by (rule Lit_of_Type)
  from ty ty' idem li lst di dct st nu bo fl no dflt show ?thesis
    by (intro conjI)
qed

theorem Lit_dispatch_witness:
  "Lit eval_literal (PList [PInt 1, PStr ''a'']) (Some (EnvDict 0))
      \<lparr>dicts = (\<lambda>a. Map.empty), fresh = 1, stdout = []\<rparr> =
     (Inr (List [Number (NInt 1) (EnvDict 0), String ''a'' (EnvDict 0)] (EnvDict 0)),
      \<lparr>dicts = (\<lambda>a. Map.empty), fresh = 1, stdout = []\<rparr>) \<and>
   fst (Lit eval_literal (PType (List [Number (NInt 1) (EnvDict 0), String ''a'' (EnvDict 0)] (EnvDict 0)))
          (Some (EnvDict 0)) \<lparr>dicts = (\<lambda>a. Map.empty), fresh = 1, stdout = []\<rparr>) =
     Inr (List [Number (NInt 1) (EnvDict 0), String ''a'' (EnvDict 0)] (EnvDict 0)) \<and>
   Lit eval_literal (PBool True) None \<lparr>dicts = (\<lambda>a. Map.empty), fresh = 1, stdout = []\<rparr> =
     (Inr (Number (NBool True) (EnvDict 1)),
      \<lparr>dicts = (\<lambda>a. Map.empty)(1 := Map.empty), fresh = 2, stdout = []\<rparr>)"
proof -
  let ?s = "\<lparr>dicts = (\<lambda>a. Map.empty), fresh = 1, stdout = []\<rparr>"
  let ?l = "List [Number (NInt 1) (EnvDict 0), String ''a'' (EnvDict 0)] (EnvDict 0)"
  note d = Lit_dispatch [of eval_literal ?l "EnvDict 0" ?s "[PInt 1, PStr ''a'']"]
  have 1: "Lit eval_literal (PList [PInt 1, PStr ''a'']) (Some (EnvDict 0)) ?s = (Inr ?l, ?s)"
    using d by (simp add: List_init_def eval_literal_def)
  from d have "\<forall>v eo y s'. Lit eval_literal v eo ?s = (Inr y, s') \<longrightarrow>
      fst (Lit eval_literal (PType y) eo s') = Inr y"
    by blast
  with 1 have 2: "fst (Lit eval_literal (PType ?l) (Some (EnvDict 0)) ?s) = Inr ?l"
    by blast
  from d have "\<forall>v. Lit eval_literal v None ?s =
      Lit eval_literal v (Some (EnvDict (fresh ?s)))
        (?s\<lparr>dicts := (dicts ?s)(fresh ?s := Map.empty), fresh := Suc (fresh ?s)\<rparr>)"
    by blast
  then have "Lit eval_literal (PBool True) None ?s =
      Lit eval_literal (PBool True) (Some (EnvDict (fresh ?s)))
        (?s\<lparr>dicts := (dicts ?s)(fresh ?s := Map.empty), fresh := Suc (fresh ?s)\<rparr>)"
    by blast
  also have "\<dots> = (Inr (Number (NBool True) (EnvDict 1)),
      \<lparr>dicts = (\<lambda>a. Map.empty)(1 := Map.empty), fresh = 2, stdout = []\<rparr>)"
    by (simp add: Lit_def)
  finally have 3: "Lit eval_literal (PBool True) None ?s =
      (Inr (Number (NBool True) (EnvDict 1)),
       \<lparr>dicts = (\<lambda>a. Map.empty)(1 := Map.empty), fresh = 2, stdout = []\<rparr>)" .
  from 1 2 3 show ?thesis
    by (intro conjI)
qed

subsection \<open>Cutting a list\<close>

lemma List_elems_values:
  assumes "\<forall>x env t. Eval (PType x) env t = (Inr x, t)"
  shows "List_elems Eval (map PType ys) env s = (Inr ys, s)"
  using assms by (induction ys) simp_all

lemma Lit_values:
  assumes "\<forall>x env t. Eval (PType x) env t = (Inr x, t)"
  shows "Lit Eval (PList (map PType ys)) None s =
           (Inr (List ys (EnvDict (fresh s))),
            s\<lparr>dicts := (dicts s)(fresh s := Map.empty), fresh := Suc (fresh s)\<rparr>)"
  using assms by (simp add: Lit_def new_dict_def List_init_def List_elems_values)

lemma clip_in_range: "0 \<le> i \<Longrightarrow> i \<le> int n \<Longrightarrow> clip n i = nat i"
  by (simp add: clip_def)

lemma Cut_unfold:
  assumes "0 \<le> i" and "i \<le> int (length xs)"
  shows "Cut Eval (List xs e # Number (NInt i) e' # rest) s =
           (case Lit Eval (PList (map PType (take (nat i) xs))) None s of
              (Inl err, s1) \<Rightarrow> (Inl err, s1)
            | (Inr l1, s1) \<Rightarrow>
                (case Lit Eval (PList (map PType (drop (nat i) xs))) None s1 of
                   (Inl err, s2) \<Rightarrow> (Inl err, s2)
                 | (Inr l2, s2) \<Rightarrow> (Inr (PList [PType l1, PType l2]), s2)))"
proof -
  have st: "slice_to (val (List xs e)) (val (Number (NInt i) e')) =
      Inr (PList (map PType (take (nat i) xs)))"
    using assms by (simp add: clip_in_range take_map)
  have sf: "slice_from (val (List xs e)) (val (Number (NInt i) e')) =
      Inr (PList (map PType (drop (nat i) xs)))"
    using assms by (simp add: clip_in_range drop_map)
  show ?thesis
    unfolding Cut.simps st sf by (simp split: prod.split sum.split)
qed

text \<open>C8: for every list payload \<open>xs\<close> and every index \<open>i\<close> with \<open>0 \<le> i \<le> length xs\<close>,
  \<^verbatim>\<open>cut\<close> applied to the list and \<open>i\<close> hands the prefix \<open>xs[0..i)\<close> and then the suffix
  \<open>xs[i..)\<close> to \<^verbatim>\<open>Lit\<close> and returns the two results as a native two-element list, never as
  a runtime value. \<^verbatim>\<open>Lit\<close> sends every element of a list through \<^verbatim>\<open>_Eval\<close>; for every evaluator
  that returns runtime values as they are, the result is the pair of the List of the
  prefix and the List of the suffix, each with a new empty environment. At index 0 the
  prefix is empty and the suffix is the whole list, at index \<open>length xs\<close> the other way
  round.\<close>

theorem Cut_prefix_suffix:
  assumes "0 \<le> i" and "i \<le> int (length xs)"
  shows "Cut Eval (List xs e # Number (NInt i) e' # rest) s =
           (case Lit Eval (PList (map PType (take (nat i) xs))) None s of
              (Inl err, s1) \<Rightarrow> (Inl err, s1)
            | (Inr l1, s1) \<Rightarrow>
                (case Lit Eval (PList (map PType (drop (nat i) xs))) None s1 of
                   (Inl err, s2) \<Rightarrow> (Inl err, s2)
                 | (Inr l2, s2) \<Rightarrow> (Inr (PList [PType l1, PType l2]), s2))) \<and>
         (\<forall>v. fst (Cut Eval (List xs e # Number (NInt i) e' # rest) s) \<noteq> Inr (PType v)) \<and>
         ((\<forall>x env t. Eval (PType x) env t = (Inr x, t)) \<longrightarrow>
            Cut Eval (List xs e # Number (NInt i) e' # rest) s =
              (Inr (PList [PType (List (take (nat i) xs) (EnvDict (fresh s))),
                           PType (List (drop (nat i) xs) (EnvDict (Suc (fresh s))))]),
               s\<lparr>dicts := (dicts s)(fresh s := Map.empty, Suc (fresh s) := Map.empty),
                  fresh := Suc (Suc (fresh s))\<rparr>)) \<and>
         (i = 0 \<longrightarrow> take (nat i) xs = [] \<and> drop (nat i) xs = xs) \<and>
         (i = int (length xs) \<longrightarrow> take (nat i) xs = xs \<and> drop (nat i) xs = [])"
proof -
  note u = Cut_unfold [OF assms, of Eval e e' rest s]
  have bare: "\<forall>v. fst (Cut Eval (List xs e # Number (NInt i) e' # rest) s) \<noteq> Inr (PType v)"
    unfolding u by (auto split: prod.splits sum.splits)
  have vals: "(\<forall>x env t. Eval (PType x) env t = (Inr x, t)) \<longrightarrow>
            Cut Eval (List xs e # Number (NInt i) e' # rest) s =
              (Inr (PList [PType (List (take (nat i) xs) (EnvDict (fresh s))),
                           PType (List (drop (nat i) xs) (EnvDict (Suc (fresh s))))]),
               s\<lparr>dicts := (dicts s)(fresh s := Map.empty, Suc (fresh s) := Map.empty),
                  fresh := Suc (Suc (fresh s))\<rparr>)"
    unfolding u by (simp add: Lit_values)
  have b0: "i = 0 \<longrightarrow> take (nat i) xs = [] \<and> drop (nat i) xs = xs"
    by simp
  have bn: "i = int (length xs) \<longrightarrow> take (nat i) xs = xs \<and> drop (nat i) xs = []"
    by simp
  from u bare vals b0 bn show ?thesis
    by (intro conjI)
qed

theorem Cut_prefix_suffix_witness:
  "fst (Cut eval_literal
          [List [Number (NInt 1) (EnvDict 0), Number (NInt 2) (EnvDict 0), Number (NInt 3) (EnvDict 0),
                 Number (NInt 4) (EnvDict 0)] (EnvDict 0),
           Number (NInt 2) (EnvDict 0)]
          \<lparr>dicts = (\<lambda>a. Map.empty), fresh = 1, stdout = []\<rparr>) =
     Inr (PList [PType (List [Number (NInt 1) (EnvDict 0), Number (NInt 2) (EnvDict 0)] (EnvDict 1)),
                 PType (List [Number (NInt 3) (EnvDict 0), Number (NInt 4) (EnvDict 0)] (EnvDict 2))]) \<and>
   fst (Cut eval_literal
          [List [Number (NInt 1) (EnvDict 0), Number (NInt 2) (EnvDict 0), Number (NInt 3) (EnvDict 0),
                 Number (NInt 4) (EnvDict 0)] (EnvDict 0),
           Number (NInt 0) (EnvDict 0)]
          \<lparr>dicts = (\<lambda>a. Map.empty), fresh = 1, stdout = []\<rparr>) =
     Inr (PList [PType (List [] (EnvDict 1)),
                 PType (List [Number (NInt 1) (EnvDict 0), Number (NInt 2) (EnvDict 0),
                              Number (NInt 3) (EnvDict 0), Number (NInt 4) (EnvDict 0)] (EnvDict 2))]) \<and>
   fst (Cut eval_literal
          [List [Number (NInt 1) (EnvDict 0), Number (NInt 2) (EnvDict 0), Number (NInt 3) (EnvDict 0),
                 Number (NInt 4) (EnvDict 0)] (EnvDict 0),
           Number (NInt 4) (EnvDict 0)]
          \<lparr>dicts = (\<lambda>a. Map.empty), fresh = 1, stdout = []\<rparr>) =
     Inr (PList [PType (List [Number (NInt 1) (EnvDict 0), Number (NInt 2) (EnvDict 0),
                              Number (NInt 3) (EnvDict 0), Number (NInt 4) (EnvDict 0)] (EnvDict 1)),
                 PType (List [] (EnvDict 2))])"
proof -
  let ?xs = "[Number (NInt 1) (EnvDict 0), Number (NInt 2) (EnvDict 0), Number (NInt 3) (EnvDict 0),
              Number (NInt 4) (EnvDict 0)]"
  let ?s = "\<lparr>dicts = (\<lambda>a. Map.empty), fresh = 1, stdout = []\<rparr>"
  have ev: "\<forall>x env t. eval_literal (PType x) env t = (Inr x, t)"
    by (simp add: eval_literal_def)
  have r2: "(0::int) \<le> 2" "2 \<le> int (length ?xs)" and r0: "(0::int) \<le> 0" "0 \<le> int (length ?xs)"
    and r4: "(0::int) \<le> 4" "4 \<le> int (length ?xs)"
    by simp_all
  from Cut_prefix_suffix [OF r2, of eval_literal "EnvDict 0" "EnvDict 0" "[]" ?s] ev
  have 2: "Cut eval_literal [List ?xs (EnvDict 0), Number (NInt 2) (EnvDict 0)] ?s =
      (Inr (PList [PType (List (take (nat 2) ?xs) (EnvDict (fresh ?s))),
                   PType (List (drop (nat 2) ?xs) (EnvDict (Suc (fresh ?s))))]),
       ?s\<lparr>dicts := (dicts ?s)(fresh ?s := Map.empty, Suc (fresh ?s) := Map.empty),
          fresh := Suc (Suc (fresh ?s))\<rparr>)"
    by blast
  from Cut_prefix_suffix [OF r0, of eval_literal "EnvDict 0" "EnvDict 0" "[]" ?s] ev
  have 0: "Cut eval_literal [List ?xs (EnvDict 0), Number (NInt 0) (EnvDict 0)] ?s =
      (Inr (PList [PType (List (take (nat 0) ?xs) (EnvDict (fresh ?s))),
                   PType (List (drop (nat 0) ?xs) (EnvDict (Suc (fresh ?s))))]),
       ?s\<lparr>dicts := (dicts ?s)(fresh ?s := Map.empty, Suc (fresh ?s) := Map.empty),
          fresh := Suc (Suc (fresh ?s))\<rparr>)"
    by blast
  from Cut_prefix_suffix [OF r4, of eval_literal "EnvDict 0" "EnvDict 0" "[]" ?s] ev
  have 4: "Cut eval_literal [List ?xs (EnvDict 0), Number (NInt 4) (EnvDict 0)] ?s =
      (Inr (PList [PType (List (take (nat 4) ?xs) (EnvDict (fresh ?s))),
                   PType (List (drop (nat 4) ?xs) (EnvDict (Suc (fresh ?s))))]),
       ?s\<lparr>dicts := (dicts ?s)(fresh ?s := Map.empty, Suc (fresh ?s) := Map.empty),
          fresh := Suc (Suc (fresh ?s))\<rparr>)"
    by blast
  have t2: "take (nat 2) ?xs = [Number (NInt 1) (EnvDict 0), Number (NInt 2) (EnvDict 0)]"
    and d2: "drop (nat 2) ?xs = [Number (NInt 3) (EnvDict 0), Number (NInt 4) (EnvDict 0)]"
    and t4: "take (nat 4) ?xs = ?xs" and d4: "drop (nat 4) ?xs = []"
    by (simp_all add: numeral_2_eq_2)
  show ?thesis
    unfolding 2 0 4 t2 d2 t4 d4 by simp
qed

subsection \<open>Mapping a Function over a list\<close>

lemma map_read_Cons_Inr:
  "(map_read ExecList (MapObject (f # rest) (z # zs)) s = (Inr ys, m, s')) =
     (\<exists>y s1 ys'. Function_Eval ExecList f [z] s = (Inr y, s1) \<and>
                  map_read ExecList (MapObject (f # rest) zs) s1 = (Inr ys', m, s') \<and> ys = y # ys')"
  by (auto split: prod.splits sum.splits)

lemma map_read_trace:
  "(map_read ExecList (MapObject (f # rest) zs) s = (Inr ys, m, s')) =
     (m = MapObject (f # rest) [] \<and>
      (\<exists>ss. length ys = length zs \<and> length ss = Suc (length zs) \<and> ss ! 0 = s \<and>
            ss ! length zs = s' \<and>
            (\<forall>j<length zs. Function_Eval ExecList f [zs ! j] (ss ! j) = (Inr (ys ! j), ss ! Suc j))))"
proof (induction zs arbitrary: s ys)
  case Nil
  have "(\<exists>ss::state list. length ss = Suc 0 \<and> ss ! 0 = s \<and> ss ! 0 = s') = (s = s')"
    by (auto intro: exI [of _ "[s]"])
  then show ?case
    by auto
next
  case (Cons z zs)
  show ?case
  proof
    assume "map_read ExecList (MapObject (f # rest) (z # zs)) s = (Inr ys, m, s')"
    then obtain y s1 ys' where
      c: "Function_Eval ExecList f [z] s = (Inr y, s1)" and
      r: "map_read ExecList (MapObject (f # rest) zs) s1 = (Inr ys', m, s')" and
      ys: "ys = y # ys'"
      unfolding map_read_Cons_Inr by blast
    from r obtain ss where
      m: "m = MapObject (f # rest) []" and
      ss: "length ys' = length zs" "length ss = Suc (length zs)" "ss ! 0 = s1" "ss ! length zs = s'"
        "\<forall>j<length zs. Function_Eval ExecList f [zs ! j] (ss ! j) = (Inr (ys' ! j), ss ! Suc j)"
      unfolding Cons.IH by blast
    have "\<forall>j<length (z # zs).
        Function_Eval ExecList f [(z # zs) ! j] ((s # ss) ! j) = (Inr (ys ! j), (s # ss) ! Suc j)"
    proof (intro allI impI)
      fix j assume "j < length (z # zs)"
      then show "Function_Eval ExecList f [(z # zs) ! j] ((s # ss) ! j) = (Inr (ys ! j), (s # ss) ! Suc j)"
        using c ss ys by (cases j) simp_all
    qed
    moreover have "length ys = length (z # zs)" "length (s # ss) = Suc (length (z # zs))"
      "(s # ss) ! 0 = s" "(s # ss) ! length (z # zs) = s'"
      using ss ys by simp_all
    ultimately have "\<exists>ss. length ys = length (z # zs) \<and> length ss = Suc (length (z # zs)) \<and>
        ss ! 0 = s \<and> ss ! length (z # zs) = s' \<and>
        (\<forall>j<length (z # zs).
            Function_Eval ExecList f [(z # zs) ! j] (ss ! j) = (Inr (ys ! j), ss ! Suc j))"
      by blast
    with m show "m = MapObject (f # rest) [] \<and>
      (\<exists>ss. length ys = length (z # zs) \<and> length ss = Suc (length (z # zs)) \<and>
        ss ! 0 = s \<and> ss ! length (z # zs) = s' \<and>
        (\<forall>j<length (z # zs).
            Function_Eval ExecList f [(z # zs) ! j] (ss ! j) = (Inr (ys ! j), ss ! Suc j)))"
      by blast
  next
    assume "m = MapObject (f # rest) [] \<and>
      (\<exists>ss. length ys = length (z # zs) \<and> length ss = Suc (length (z # zs)) \<and>
        ss ! 0 = s \<and> ss ! length (z # zs) = s' \<and>
        (\<forall>j<length (z # zs).
            Function_Eval ExecList f [(z # zs) ! j] (ss ! j) = (Inr (ys ! j), ss ! Suc j)))"
    then obtain ss where
      m: "m = MapObject (f # rest) []" and
      l: "length ys = Suc (length zs)" "length ss = Suc (Suc (length zs))" and
      b: "ss ! 0 = s" "ss ! Suc (length zs) = s'" and
      st: "\<forall>j<Suc (length zs).
            Function_Eval ExecList f [(z # zs) ! j] (ss ! j) = (Inr (ys ! j), ss ! Suc j)"
      by auto
    from l obtain y ys' where ys: "ys = y # ys'" "length ys' = length zs"
      by (cases ys) auto
    from l b obtain ss' where ss: "ss = s # ss'" "length ss' = Suc (length zs)"
      by (cases ss) auto
    from st have c: "Function_Eval ExecList f [z] s = (Inr y, ss' ! 0)"
      using ys ss by (auto dest: spec [of _ 0])
    have "\<forall>j<length zs. Function_Eval ExecList f [zs ! j] (ss' ! j) = (Inr (ys' ! j), ss' ! Suc j)"
    proof (intro allI impI)
      fix j assume "j < length zs"
      then have "Suc j < Suc (length zs)"
        by simp
      with st have "Function_Eval ExecList f [(z # zs) ! Suc j] (ss ! Suc j) =
          (Inr (ys ! Suc j), ss ! Suc (Suc j))"
        by blast
      then show "Function_Eval ExecList f [zs ! j] (ss' ! j) = (Inr (ys' ! j), ss' ! Suc j)"
        using ys ss by simp
    qed
    moreover have "ss' ! length zs = s'"
      using b ss by simp
    ultimately have "map_read ExecList (MapObject (f # rest) zs) (ss' ! 0) = (Inr ys', m, s')"
      unfolding Cons.IH using ys ss m by blast
    with c ys show "map_read ExecList (MapObject (f # rest) (z # zs)) s = (Inr ys, m, s')"
      unfolding map_read_Cons_Inr by blast
  qed
qed

lemma map_read_exhausted: "map_read ExecList (MapObject args []) s = (Inr [], MapObject args [], s)"
  by simp

lemma map_read_payloads:
  assumes "\<forall>x\<in>set xs. \<forall>t. \<exists>y t'. Function_Eval ExecList f [PType x] t = (Inr y, t') \<and> val y = g x"
  shows "\<exists>ys t'. map_read ExecList (MapObject (f # rest) (map PType xs)) s =
            (Inr ys, MapObject (f # rest) [], t') \<and> map val ys = map g xs"
  using assms
proof (induction xs arbitrary: s)
  case Nil
  then show ?case
    by simp
next
  case (Cons x xs)
  from Cons.prems obtain y s1 where
    c: "Function_Eval ExecList f [PType x] s = (Inr y, s1)" "val y = g x"
    by (meson list.set_intros(1))
  from Cons.prems have "\<forall>x\<in>set xs. \<forall>t. \<exists>y t'. Function_Eval ExecList f [PType x] t = (Inr y, t') \<and> val y = g x"
    by simp
  from Cons.IH [OF this, of s1] obtain ys t' where
    r: "map_read ExecList (MapObject (f # rest) (map PType xs)) s1 = (Inr ys, MapObject (f # rest) [], t')"
      "map val ys = map g xs"
    by blast
  from c r have "map_read ExecList (MapObject (f # rest) (map PType (x # xs))) s =
      (Inr (y # ys), MapObject (f # rest) [], t') \<and> map val (y # ys) = map g (x # xs)"
    by simp
  then show ?case
    by blast
qed

text \<open>C6 does not hold of \<^verbatim>\<open>_Map\<close>. Applied to \<open>f\<close> and a List with payload \<open>xs\<close>, \<^verbatim>\<open>_Map\<close>
  returns the map object that still holds every element of \<open>xs\<close>: no call of \<open>f\<close> has been
  made, and nothing is materialized. Only reading the object makes the calls, one after
  the other in the order of the list, each in the state the call before it left; a first
  reading that ends normally yields the results of these calls in order and leaves the
  object exhausted, so that a second reading yields the empty list, which differs from
  the first result whenever \<open>xs\<close> is not empty. When \<open>f\<close> applied to an element \<open>x\<close> always
  returns a value with payload \<open>g x\<close>, the first reading has the payloads
  \<open>[g e1, ..., g en]\<close>; the instance after the theorem reads \<open>[2, 3, 4]\<close> from the map of the
  increment function over \<open>[1, 2, 3]\<close>, and then the empty list.\<close>

theorem Map_returns_lazy_iterator:
  "Map (f # List xs e # rest) = Inr (MapObject (f # List xs e # rest) (map PType xs)) \<and>
   (\<forall>ys m s'.
      map_read ExecList (MapObject (f # List xs e # rest) (map PType xs)) s = (Inr ys, m, s') \<longrightarrow>
        (\<exists>ss. length ys = length xs \<and> length ss = Suc (length xs) \<and> ss ! 0 = s \<and>
              ss ! length xs = s' \<and>
              (\<forall>j<length xs.
                 Function_Eval ExecList f [PType (xs ! j)] (ss ! j) = (Inr (ys ! j), ss ! Suc j))) \<and>
        m = MapObject (f # List xs e # rest) [] \<and>
        map_read ExecList m s' = (Inr [], m, s') \<and>
        (xs \<noteq> [] \<longrightarrow> fst (map_read ExecList m s') \<noteq> Inr ys)) \<and>
   ((\<forall>x\<in>set xs. \<forall>t. \<exists>y t'. Function_Eval ExecList f [PType x] t = (Inr y, t') \<and> val y = g x) \<longrightarrow>
      (\<exists>ys t'. map_read ExecList (MapObject (f # List xs e # rest) (map PType xs)) s =
                 (Inr ys, MapObject (f # List xs e # rest) [], t') \<and>
               map val ys = map g xs))"
proof (intro conjI allI impI)
  show "Map (f # List xs e # rest) = Inr (MapObject (f # List xs e # rest) (map PType xs))"
    by simp
next
  fix ys m s'
  assume r: "map_read ExecList (MapObject (f # List xs e # rest) (map PType xs)) s = (Inr ys, m, s')"
  then have m: "m = MapObject (f # List xs e # rest) []" and
    t: "\<exists>ss. length ys = length (map PType xs) \<and> length ss = Suc (length (map PType xs)) \<and>
          ss ! 0 = s \<and> ss ! length (map PType xs) = s' \<and>
          (\<forall>j<length (map PType xs).
             Function_Eval ExecList f [map PType xs ! j] (ss ! j) = (Inr (ys ! j), ss ! Suc j))"
    unfolding map_read_trace by blast+
  from t show "\<exists>ss. length ys = length xs \<and> length ss = Suc (length xs) \<and> ss ! 0 = s \<and>
              ss ! length xs = s' \<and>
              (\<forall>j<length xs.
                 Function_Eval ExecList f [PType (xs ! j)] (ss ! j) = (Inr (ys ! j), ss ! Suc j))"
    by (auto simp: nth_map)
  show "m = MapObject (f # List xs e # rest) []"
    by (rule m)
  show "map_read ExecList m s' = (Inr [], m, s')"
    unfolding m by simp
  from t have len: "length ys = length xs"
    by auto
  show "fst (map_read ExecList m s') \<noteq> Inr ys" if "xs \<noteq> []"
    using that len unfolding m by auto
next
  assume "\<forall>x\<in>set xs. \<forall>t. \<exists>y t'. Function_Eval ExecList f [PType x] t = (Inr y, t') \<and> val y = g x"
  from map_read_payloads [OF this, of "List xs e # rest" s]
  show "\<exists>ys t'. map_read ExecList (MapObject (f # List xs e # rest) (map PType xs)) s =
                 (Inr ys, MapObject (f # List xs e # rest) [], t') \<and>
               map val ys = map g xs" .
qed

theorem Map_returns_lazy_iterator_witness:
  "\<exists>ys m t'.
     Map [Function 0 [''x''] [] 0,
          List [Number (NInt 1) (EnvDict 0), Number (NInt 2) (EnvDict 0), Number (NInt 3) (EnvDict 0)] (EnvDict 0)] =
       Inr (MapObject
              [Function 0 [''x''] [] 0,
               List [Number (NInt 1) (EnvDict 0), Number (NInt 2) (EnvDict 0), Number (NInt 3) (EnvDict 0)] (EnvDict 0)]
              [PType (Number (NInt 1) (EnvDict 0)), PType (Number (NInt 2) (EnvDict 0)),
               PType (Number (NInt 3) (EnvDict 0))]) \<and>
     map_read exec_increment
       (MapObject
          [Function 0 [''x''] [] 0,
           List [Number (NInt 1) (EnvDict 0), Number (NInt 2) (EnvDict 0), Number (NInt 3) (EnvDict 0)] (EnvDict 0)]
          [PType (Number (NInt 1) (EnvDict 0)), PType (Number (NInt 2) (EnvDict 0)),
           PType (Number (NInt 3) (EnvDict 0))])
       \<lparr>dicts = (\<lambda>a. Map.empty), fresh = 1, stdout = []\<rparr> = (Inr ys, m, t') \<and>
     map val ys = [PInt 2, PInt 3, PInt 4] \<and>
     map_read exec_increment m t' = (Inr [], m, t')"
proof -
  let ?f = "Function 0 [''x''] [] 0"
  let ?xs = "[Number (NInt 1) (EnvDict 0), Number (NInt 2) (EnvDict 0), Number (NInt 3) (EnvDict 0)]"
  let ?s = "\<lparr>dicts = (\<lambda>a. Map.empty), fresh = 1, stdout = []\<rparr>"
  let ?g = "\<lambda>x. case val x of PInt i \<Rightarrow> PInt (i + 1) | other \<Rightarrow> other"
  let ?m = "MapObject [?f, List ?xs (EnvDict 0)] (map PType ?xs)"
  note th = Map_returns_lazy_iterator [of ?f ?xs "EnvDict 0" "[]" exec_increment ?s ?g]
  have inc: "\<exists>y t'. Function_Eval exec_increment ?f [PType (Number (NInt i) e)] t = (Inr y, t') \<and>
      val y = PInt (i + 1)" for i e t
    by (simp add: new_dict_def dict_zip_def exec_increment_def dict_getitem_def)
  have h: "\<forall>x\<in>set ?xs. \<forall>t. \<exists>y t'. Function_Eval exec_increment ?f [PType x] t = (Inr y, t') \<and> val y = ?g x"
    using inc [of 1] inc [of 2] inc [of 3] by (simp del: Function_Eval.simps)
  from th have 0: "Map [?f, List ?xs (EnvDict 0)] = Inr ?m"
    by blast
  from th h obtain ys t' where
    r: "map_read exec_increment ?m ?s = (Inr ys, MapObject [?f, List ?xs (EnvDict 0)] [], t')" and
    p: "map val ys = map ?g ?xs"
    by blast
  from th r have again: "map_read exec_increment (MapObject [?f, List ?xs (EnvDict 0)] []) t' =
      (Inr [], MapObject [?f, List ?xs (EnvDict 0)] [], t')"
    by blast
  from p have p': "map val ys = [PInt 2, PInt 3, PInt 4]"
    by simp
  from 0 r p' again have "Map [?f, List ?xs (EnvDict 0)] = Inr ?m \<and>
      map_read exec_increment ?m ?s = (Inr ys, MapObject [?f, List ?xs (EnvDict 0)] [], t') \<and>
      map val ys = [PInt 2, PInt 3, PInt 4] \<and>
      map_read exec_increment (MapObject [?f, List ?xs (EnvDict 0)] []) t' =
        (Inr [], MapObject [?f, List ?xs (EnvDict 0)] [], t')"
    by (intro conjI)
  then show ?thesis
    unfolding list.map by (intro exI)
qed

end
